theory Spec2Isabelle
  imports Complex_Main
begin

section \<open>Python values, errors and strings\<close>

text \<open>
  The module \<^verbatim>\<open>lsst.display.ginga.ginga\<close> forwards a small display interface to an
  interactive image viewer.  Every \<^verbatim>\<open>raise\<close> of the module, and every exception that the
  Python semantics of its own statements produces (an unbound name, a list index out of
  range, a failed unpacking, a failed string conversion or formatting), is a value of
  \<open>pyerr\<close>.
\<close>

datatype pyerr =
    NameError string
  | TypeError string
  | ValueError string
  | IndexError string
  | AttributeError string
  | RuntimeError string

text \<open>
  The values a module-level name of this module can hold: \<^verbatim>\<open>None\<close>, a viewer server
  (by its address in the object store), or one of the modules, functions and classes
  that the module body binds.  Only \<^verbatim>\<open>None\<close> is false.
\<close>

datatype pyval = PyNone | PyServer nat | PyOther

fun truthy :: "pyval \<Rightarrow> bool" where
  "truthy PyNone = False"
| "truthy (PyServer a) = True"
| "truthy PyOther = True"

text \<open>Reading a name that is neither local nor bound in the module raises NameError.\<close>

definition lookup_name :: "(string \<rightharpoonup> pyval) \<Rightarrow> string \<Rightarrow> pyerr + pyval" where
  "lookup_name g n =
     (case g n of
        None \<Rightarrow> Inl (NameError n)
      | Some v \<Rightarrow> Inr v)"

text \<open>\<^verbatim>\<open>s.split(sep)\<close> for a one-character separator: always at least one part.\<close>

fun split_chr :: "char \<Rightarrow> string \<Rightarrow> string list" where
  "split_chr sep [] = [[]]"
| "split_chr sep (c # cs) =
     (if c = sep then [] # split_chr sep cs
      else (case split_chr sep cs of
              [] \<Rightarrow> [[c]]
            | p # ps \<Rightarrow> (c # p) # ps))"

text \<open>
  \<^verbatim>\<open>s.split()\<close>: the maximal runs of non-whitespace characters.  A character of a
  string is a code point below 256, and the whitespace characters are those of Python 3
  among them: tab, line feed, vertical tab, form feed, carriage return (9 to 13), the four
  separators 28 to 31, space (32), next line (133, U+0085) and no-break space (160,
  U+00A0).
\<close>

definition py_isspace :: "char \<Rightarrow> bool" where
  "py_isspace c =
     (let k = of_char c :: nat
      in (9 \<le> k \<and> k \<le> 13) \<or> (28 \<le> k \<and> k \<le> 32) \<or> k = 133 \<or> k = 160)"

fun split_ws_from :: "string \<Rightarrow> string \<Rightarrow> string list" where
  "split_ws_from tok [] = (if tok = [] then [] else [tok])"
| "split_ws_from tok (c # cs) =
     (if py_isspace c
      then (if tok = [] then split_ws_from [] cs else tok # split_ws_from [] cs)
      else split_ws_from (tok @ [c]) cs)"

definition split_ws :: "string \<Rightarrow> string list" where
  "split_ws s = split_ws_from [] s"

text \<open>\<^verbatim>\<open>sep.join(parts)\<close>.\<close>

fun py_join :: "string \<Rightarrow> string list \<Rightarrow> string" where
  "py_join sep [] = []"
| "py_join sep [p] = p"
| "py_join sep (p # q # ps) = p @ sep @ py_join sep (q # ps)"

text \<open>
  \<^verbatim>\<open>fmt % args\<close> for string arguments, with the conversions \<^verbatim>\<open>%s\<close> and \<^verbatim>\<open>%%\<close> (the
  only ones the module uses).  A right operand that is neither a tuple nor a mapping
  counts as one argument.  Arguments left over once the format is exhausted raise
  TypeError, as does a conversion with no argument left.
\<close>

fun py_format :: "string \<Rightarrow> string list \<Rightarrow> pyerr + string" where
  "py_format [] [] = Inr []"
| "py_format [] (a # as) =
     Inl (TypeError ''not all arguments converted during string formatting'')"
| "py_format (c # cs) as =
     (if c \<noteq> CHR ''%''
      then map_sum id ((#) c) (py_format cs as)
      else (case cs of
              [] \<Rightarrow> Inl (ValueError ''incomplete format'')
            | d # ds \<Rightarrow>
                if d = CHR ''%'' then map_sum id ((#) c) (py_format ds as)
                else if d = CHR ''s''
                then (case as of
                        [] \<Rightarrow> Inl (TypeError ''not enough arguments for format string'')
                      | a # as' \<Rightarrow> map_sum id ((@) a) (py_format ds as'))
                else Inl (ValueError ''unsupported format character'')))"

section \<open>The object store\<close>

text \<open>
  The viewer library (\<^verbatim>\<open>ginga.web.pgw.ipg\<close>) is not part of the module.  Its objects
  live in a store indexed by address; an address is allocated once and never freed, as a
  Python reference cannot dangle.  Of a viewer the store keeps what the module has done to
  it: the canvases added to it, the image last set on it, and the log of the other calls
  made on it, among them \<^verbatim>\<open>get_settings().set(html5_canvas_format=f)\<close>.  What the
  library makes of those calls, and the settings a viewer starts with, are the library's
  and are not in the store.
\<close>

type_synonym ctype = string

datatype 'n symb =
    BaseCore (getA: 'n) (getB: 'n) (getTheta: 'n)
  | Sym string

text \<open>
  A drawing primitive is the call of its draw class: \<^verbatim>\<open>Ellipse(c, r, xradius, yradius,
  rot_deg, color)\<close>, \<^verbatim>\<open>Circle(c, r, radius, color)\<close>, \<^verbatim>\<open>Line(*coords, color)\<close> and
  \<^verbatim>\<open>Text(x, y, symb, color)\<close>.
\<close>

datatype 'n prim =
    Ellipse 'n 'n 'n 'n 'n ctype
  | Circle 'n 'n 'n ctype
  | Line "'n list" ctype
  | Text 'n 'n string ctype

datatype 'n level = LevelName string | LevelNum 'n

text \<open>An image or mask object of the host framework: its truth value and the pixel array
  its \<^verbatim>\<open>getArray()\<close> returns (by address).\<close>

datatype pyobj = Obj (truth: bool) (getArray: nat)

datatype 'n vcall =
    Open
  | SetCanvasFormat string
  | SetColorMap string
  | SetColorAlgorithm string
  | SetAutocutParams string "string option"
  | AutoLevels
  | CutLevels "'n level" "'n level"
  | ScaleTo 'n 'n
  | SetPan 'n 'n

record 'n angle =
  asDegrees :: 'n

record 'n wcs =
  pixelToSky :: "'n list \<Rightarrow> pyerr + 'n angle list"
  skyToPixel :: "'n \<Rightarrow> 'n \<Rightarrow> pyerr + 'n \<times> 'n"

record 'n WcsAdaptorForGinga =
  self_wcs :: "'n wcs"

record 'n astroImage =
  data_np :: nat
  image_wcs :: "'n WcsAdaptorForGinga option"

record server =
  sv_host :: string
  sv_port :: int
  sv_use_opencv :: bool
  sv_running :: bool
  sv_no_ioloop :: "bool option"
  sv_viewers :: "string \<rightharpoonup> nat"

record 'n viewer =
  vw_canvases :: "nat list"
  vw_image :: "'n astroImage option"
  vw_log :: "'n vcall list"

record 'n world =
  globals :: "string \<rightharpoonup> pyval"
  class_server :: "nat option"
  servers :: "nat \<Rightarrow> server"
  n_servers :: nat
  viewers :: "nat \<Rightarrow> 'n viewer"
  n_viewers :: nat
  canvas_objs :: "nat \<Rightarrow> 'n prim list"
  n_canvases :: nat
  stdout :: "string list"
  stderr :: "string list"

text \<open>
  The names the module body binds, in the order of the source.  The block
  \<^verbatim>\<open>if False: ... server = None\<close> never runs, so \<^verbatim>\<open>server\<close> is not among them;
  \<^verbatim>\<open>_maskTransparency\<close> is bound to \<^verbatim>\<open>None\<close> by the handler of its NameError.
\<close>

definition module_globals :: "(string \<times> pyval) list" where
  "module_globals =
     [(''absolute_import'', PyOther), (''division'', PyOther), (''print_function'', PyOther),
      (''math'', PyOther), (''os'', PyOther), (''re'', PyOther), (''sys'', PyOther),
      (''time'', PyOther), (''ipg'', PyOther), (''interface'', PyOther),
      (''virtualDevice'', PyOther), (''ds9Regions'', PyOther), (''afwGeom'', PyOther),
      (''_maskTransparency'', PyNone), (''gingaVersion'', PyOther),
      (''initGinga'', PyOther), (''GingaEvent'', PyOther), (''DisplayImpl'', PyOther),
      (''WcsAdaptorForGinga'', PyOther)]"

definition no_server :: server where
  "no_server = \<lparr>sv_host = [], sv_port = 0, sv_use_opencv = False, sv_running = False,
                 sv_no_ioloop = None, sv_viewers = Map.empty\<rparr>"

text \<open>A viewer to which the module has done nothing yet.\<close>

definition no_viewer :: "'n viewer" where
  "no_viewer = \<lparr>vw_canvases = [], vw_image = None, vw_log = []\<rparr>"

text \<open>The process after the module has been imported: the class attribute
  \<^verbatim>\<open>DisplayImpl.server\<close> is \<^verbatim>\<open>None\<close> and no viewer object exists.\<close>

definition fresh_process :: "'n world" where
  "fresh_process =
     \<lparr>globals = map_of module_globals, class_server = None,
      servers = (\<lambda>a. no_server), n_servers = 0,
      viewers = (\<lambda>a. no_viewer), n_viewers = 0,
      canvas_objs = (\<lambda>a. []), n_canvases = 0,
      stdout = [], stderr = []\<rparr>"

subsection \<open>The viewer library's operations\<close>

definition make_server :: "'n world \<Rightarrow> string \<Rightarrow> int \<Rightarrow> bool \<Rightarrow> nat \<times> 'n world" where
  "make_server w host port use_opencv =
     (let a = n_servers w
      in (a, w\<lparr>servers := (servers w)
                   (a := \<lparr>sv_host = host, sv_port = port, sv_use_opencv = use_opencv,
                          sv_running = False, sv_no_ioloop = None,
                          sv_viewers = Map.empty\<rparr>),
               n_servers := Suc a\<rparr>))"

definition server_start :: "'n world \<Rightarrow> nat \<Rightarrow> bool \<Rightarrow> 'n world" where
  "server_start w a no_ioloop =
     w\<lparr>servers := (servers w)
          (a := (servers w a)\<lparr>sv_running := True, sv_no_ioloop := Some no_ioloop\<rparr>)\<rparr>"

definition server_stop :: "'n world \<Rightarrow> nat \<Rightarrow> 'n world" where
  "server_stop w a =
     w\<lparr>servers := (servers w)(a := (servers w a)\<lparr>sv_running := False\<rparr>)\<rparr>"

text \<open>\<^verbatim>\<open>server.get_viewer(v_id)\<close>: the viewer registered under the id, created and
  registered on the first request.\<close>

definition server_get_viewer :: "'n world \<Rightarrow> nat \<Rightarrow> string \<Rightarrow> nat \<times> 'n world" where
  "server_get_viewer w a v_id =
     (case sv_viewers (servers w a) v_id of
        Some v \<Rightarrow> (v, w)
      | None \<Rightarrow>
          (let v = n_viewers w
           in (v, w\<lparr>servers := (servers w)
                        (a := (servers w a)
                           \<lparr>sv_viewers := (sv_viewers (servers w a))(v_id \<mapsto> v)\<rparr>),
                    viewers := (viewers w)(v := no_viewer),
                    n_viewers := Suc v\<rparr>)))"

text \<open>\<^verbatim>\<open>viewer.add_canvas()\<close>: a new, empty canvas on the viewer.\<close>

definition add_canvas :: "'n world \<Rightarrow> nat \<Rightarrow> nat \<times> 'n world" where
  "add_canvas w v =
     (let k = n_canvases w
      in (k, w\<lparr>viewers := (viewers w)
                   (v := (viewers w v)\<lparr>vw_canvases := vw_canvases (viewers w v) @ [k]\<rparr>),
               canvas_objs := (canvas_objs w)(k := []),
               n_canvases := Suc k\<rparr>))"

definition canvas_add :: "'n world \<Rightarrow> nat \<Rightarrow> 'n prim \<Rightarrow> 'n world" where
  "canvas_add w k p = w\<lparr>canvas_objs := (canvas_objs w)(k := canvas_objs w k @ [p])\<rparr>"

definition delete_all_objects :: "'n world \<Rightarrow> nat \<Rightarrow> 'n world" where
  "delete_all_objects w k = w\<lparr>canvas_objs := (canvas_objs w)(k := [])\<rparr>"

definition viewer_call :: "'n world \<Rightarrow> nat \<Rightarrow> 'n vcall \<Rightarrow> 'n world" where
  "viewer_call w v c =
     w\<lparr>viewers := (viewers w)(v := (viewers w v)\<lparr>vw_log := vw_log (viewers w v) @ [c]\<rparr>)\<rparr>"

text \<open>\<^verbatim>\<open>settings = viewer.get_settings(); settings.set(html5_canvas_format=f)\<close>.\<close>

definition settings_set_format :: "'n world \<Rightarrow> nat \<Rightarrow> string \<Rightarrow> 'n world" where
  "settings_set_format w v f = viewer_call w v (SetCanvasFormat f)"

definition set_image :: "'n world \<Rightarrow> nat \<Rightarrow> 'n astroImage \<Rightarrow> 'n world" where
  "set_image w v im =
     w\<lparr>viewers := (viewers w)(v := (viewers w v)\<lparr>vw_image := Some im\<rparr>)\<rparr>"

definition print_out :: "'n world \<Rightarrow> string \<Rightarrow> 'n world" where
  "print_out w line = w\<lparr>stdout := stdout w @ [line]\<rparr>"

definition print_err :: "'n world \<Rightarrow> string \<Rightarrow> 'n world" where
  "print_err w line = w\<lparr>stderr := stderr w @ [line]\<rparr>"

section \<open>Python's floats\<close>

text \<open>
  The model is written over any type of numbers with a subtraction and a one; the
  coordinates, radii and angles the module is given pass through it unchanged.
  \<^verbatim>\<open>float(p) - 1\<close> is a subtraction of that type.  Python's own floats are the
  instance \<open>double\<close>: an IEEE 754 double is a finite value (\<open>Finite x\<close> is the double
  of value \<open>x\<close>), an infinity or a NaN, and the difference of two finite doubles is their
  exact difference rounded to 53 significant bits, ties to the even significand, and an
  infinity when that exceeds the largest double.  (A difference of doubles below the
  normal range is exact, so the rounding at 53 bits covers it.  The sign of a zero is not
  kept.)
\<close>

datatype double = Finite real | PosInf | NegInf | NaN

definition round_even :: "real \<Rightarrow> int" where
  "round_even t =
     (let f = \<lfloor>t\<rfloor>; d = t - of_int f
      in if d < 1 / 2 then f
         else if 1 / 2 < d then f + 1
         else if even f then f else f + 1)"

definition pow2 :: "int \<Rightarrow> real" where
  "pow2 i = (if 0 \<le> i then 2 ^ nat i else 1 / 2 ^ nat (- i))"

definition round_double :: "real \<Rightarrow> real" where
  "round_double y =
     (if y = 0 then 0
      else (let u = pow2 (\<lfloor>log 2 \<bar>y\<bar>\<rfloor> - 52)
            in u * of_int (round_even (y / u))))"

definition max_double :: real where
  "max_double = (2 ^ 53 - 1) * 2 ^ 971"

fun double_sub :: "double \<Rightarrow> double \<Rightarrow> double" where
  "double_sub NaN b = NaN"
| "double_sub a NaN = NaN"
| "double_sub PosInf PosInf = NaN"
| "double_sub NegInf NegInf = NaN"
| "double_sub PosInf b = PosInf"
| "double_sub NegInf b = NegInf"
| "double_sub (Finite x) PosInf = NegInf"
| "double_sub (Finite x) NegInf = PosInf"
| "double_sub (Finite x) (Finite y) =
     (let z = round_double (x - y)
      in if max_double < \<bar>z\<bar> then (if 0 < z then PosInf else NegInf) else Finite z)"

instantiation double :: "{minus, one}"
begin

definition one_double :: double where
  "one_double = Finite 1"

definition minus_double :: "double \<Rightarrow> double \<Rightarrow> double" where
  "minus_double a b = double_sub a b"

instance ..

end

section \<open>The module\<close>

text \<open>
  What the module takes from the host framework and from Python's library and does not
  define itself: \<^verbatim>\<open>ds9Regions.dot(symb, c, r, size, fontFamily, textAngle)\<close>, the list of
  region commands of a symbol; \<^verbatim>\<open>float(p)\<close>, which raises ValueError (here \<open>None\<close>) on
  a string that is not a number; and \<^verbatim>\<open>math.degrees\<close>.
\<close>

record 'n ext =
  ds9dot :: "string \<Rightarrow> 'n \<Rightarrow> 'n \<Rightarrow> 'n \<Rightarrow> string \<Rightarrow> 'n option \<Rightarrow> string list"
  pyfloat :: "string \<Rightarrow> 'n option"
  degrees :: "'n \<Rightarrow> 'n"

subsection \<open>\<^verbatim>\<open>initGinga\<close>\<close>

text \<open>
  \<^verbatim>\<open>global server; if not server: server = ipg.make_server(...); server.start(...)\<close>.
  The name is the module-level \<^verbatim>\<open>server\<close>, not the class attribute
  \<^verbatim>\<open>DisplayImpl.server\<close>.
\<close>

definition initGinga ::
  "'n world \<Rightarrow> string \<Rightarrow> int \<Rightarrow> bool \<Rightarrow> bool \<Rightarrow> pyerr option \<times> 'n world" where
  "initGinga w host port use_opencv no_ioloop =
     (case lookup_name (globals w) ''server'' of
        Inl e \<Rightarrow> (Some e, w)
      | Inr v \<Rightarrow>
          if \<not> truthy v
          then (let (a, w1) = make_server w host port use_opencv;
                    w2 = w1\<lparr>globals := (globals w1)(''server'' \<mapsto> PyServer a)\<rparr>
                in (None, server_start w2 a no_ioloop))
          else (None, w))"

subsection \<open>\<^verbatim>\<open>DisplayImpl\<close>\<close>

text \<open>
  An instance holds \<^verbatim>\<open>self.display\<close> (the viewer, set by the base class from the
  constructor's first argument, with \<^verbatim>\<open>self.verbose\<close>) and \<^verbatim>\<open>self._canvas\<close>.  No
  method assigns to an attribute of \<^verbatim>\<open>self\<close> after the constructor, so the methods
  take the instance and return the store only.
\<close>

record DisplayImpl =
  self_display :: nat
  self_verbose :: bool
  self_canvas :: nat

text \<open>\<^verbatim>\<open>str(display.frame)\<close> for an integer frame.\<close>

fun str_nat :: "nat \<Rightarrow> string" where
  "str_nat n =
     (if n < 10 then [char_of (48 + n)]
      else str_nat (n div 10) @ [char_of (48 + n mod 10)])"

definition py_str_int :: "int \<Rightarrow> string" where
  "py_str_int i = (if i < 0 then CHR ''-'' # str_nat (nat (- i)) else str_nat (nat i))"

definition canvas_types :: "string list" where
  "canvas_types = [''jpeg'', ''png'']"

definition unknown_format_fmt :: string where
  "unknown_format_fmt =
     ''Unknown format '' @ [CHR 0x22] @ ''%s'' @ [CHR 0x22] @ '' (allowed: '' @ [CHR 0x22]
       @ ''%s'' @ [CHR 0x22] @ '')''"

text \<open>
  The first statement of the constructor:
  \<^verbatim>\<open>if not DisplayImpl.server: DisplayImpl.server = ipg.make_server(...);
  DisplayImpl.server.start(...)\<close>, with the server the rest of the constructor uses.
\<close>

definition ensure_server ::
  "'n world \<Rightarrow> string \<Rightarrow> int \<Rightarrow> bool \<Rightarrow> bool \<Rightarrow> nat \<times> 'n world" where
  "ensure_server w host port use_opencv no_ioloop =
     (case class_server w of
        None \<Rightarrow>
          (let (a, w') = make_server w host port use_opencv;
               w'' = w'\<lparr>class_server := Some a\<rparr>
           in (a, server_start w'' a no_ioloop))
      | Some a \<Rightarrow> (a, w))"

definition DisplayImpl_init ::
  "'n world \<Rightarrow> int \<Rightarrow> bool \<Rightarrow> bool \<Rightarrow> string \<Rightarrow> int \<Rightarrow> bool \<Rightarrow> bool \<Rightarrow> string
     \<Rightarrow> (pyerr + DisplayImpl) \<times> 'n world" where
  "DisplayImpl_init w frame verbose opn host port use_opencv no_ioloop canvas_format =
     (let (a, w1) = ensure_server w host port use_opencv no_ioloop;
          (v, w2) = server_get_viewer w1 a (py_str_int frame);
          (k, w3) = add_canvas w2 v;
          self = \<lparr>self_display = v, self_verbose = False, self_canvas = k\<rparr>;
          finish = (\<lambda>w4. (Inr self, if opn then viewer_call w4 v Open else w4))
      in if canvas_format \<in> set canvas_types
         then finish (settings_set_format w3 v canvas_format)
         else (case py_format unknown_format_fmt
                      [canvas_format, py_join ([CHR 0x22] @ '', '' @ [CHR 0x22]) canvas_types] of
                 Inl e \<Rightarrow> (Inl e, w3)
               | Inr line \<Rightarrow> finish (print_out w3 line)))"

definition DisplayImpl_get_viewer :: "DisplayImpl \<Rightarrow> nat" where
  "DisplayImpl_get_viewer self = self_display self"

definition DisplayImpl_shutdown_server :: "'n world \<Rightarrow> DisplayImpl \<Rightarrow> 'n world" where
  "DisplayImpl_shutdown_server w self =
     (case class_server w of
        None \<Rightarrow> w
      | Some a \<Rightarrow> (server_stop w a)\<lparr>class_server := None\<rparr>)"

text \<open>
  \<^verbatim>\<open>def show_color_bar(show=True)\<close> and \<^verbatim>\<open>def show_pan_mark(show=True, color='red')\<close>
  are declared without \<^verbatim>\<open>self\<close>: called on an instance, the instance is bound to
  \<^verbatim>\<open>show\<close>; more arguments than the parameters left raise TypeError, and the body
  reads the unbound name \<^verbatim>\<open>self\<close>.  The argument is the number of positional
  arguments given after the instance.
\<close>

definition DisplayImpl_show_color_bar ::
  "'n world \<Rightarrow> DisplayImpl \<Rightarrow> nat \<Rightarrow> pyerr option \<times> 'n world" where
  "DisplayImpl_show_color_bar w self nargs =
     (if 0 < nargs then (Some (TypeError ''show_color_bar() takes at most 1 argument''), w)
      else (case lookup_name (globals w) ''self'' of
              Inl e \<Rightarrow> (Some e, w)
            | Inr v \<Rightarrow> (Some (AttributeError ''display''), w)))"

definition DisplayImpl_show_pan_mark ::
  "'n world \<Rightarrow> DisplayImpl \<Rightarrow> nat \<Rightarrow> pyerr option \<times> 'n world" where
  "DisplayImpl_show_pan_mark w self nargs =
     (if 1 < nargs then (Some (TypeError ''show_pan_mark() takes at most 2 arguments''), w)
      else (case lookup_name (globals w) ''self'' of
              Inl e \<Rightarrow> (Some e, w)
            | Inr v \<Rightarrow> (Some (AttributeError ''display''), w)))"

definition DisplayImpl_close :: "'n world \<Rightarrow> DisplayImpl \<Rightarrow> 'n world" where
  "DisplayImpl_close w self = w"

text \<open>
  \<^verbatim>\<open>print("ginga is unable to set transparency for individual maskplanes" % maskplane,
  file=sys.stderr)\<close>: the format is applied to the plane's name before anything is
  printed.
\<close>

definition DisplayImpl_setMaskTransparency ::
  "'n world \<Rightarrow> DisplayImpl \<Rightarrow> 'n option \<Rightarrow> string option \<Rightarrow> pyerr option \<times> 'n world" where
  "DisplayImpl_setMaskTransparency w self transparency maskplane =
     (case maskplane of
        None \<Rightarrow> (None, w)
      | Some m \<Rightarrow>
          (case py_format ''ginga is unable to set transparency for individual maskplanes'' [m] of
             Inl e \<Rightarrow> (Some e, w)
           | Inr line \<Rightarrow> (None, print_err w line)))"

definition DisplayImpl_getMaskTransparency ::
  "'n world \<Rightarrow> DisplayImpl \<Rightarrow> string option \<Rightarrow> 'n world" where
  "DisplayImpl_getMaskTransparency w self maskplane = w"

definition DisplayImpl_erase :: "'n world \<Rightarrow> DisplayImpl \<Rightarrow> 'n world" where
  "DisplayImpl_erase w self = delete_all_objects w (self_canvas self)"

text \<open>
  \<^verbatim>\<open>if image:\<close> and \<^verbatim>\<open>if mask:\<close> test the truth value of the argument, not whether
  it is \<^verbatim>\<open>None\<close> (as \<^verbatim>\<open>wcs is not None\<close> does): \<^verbatim>\<open>None\<close> is false, and an object is
  what its class makes it.
\<close>

definition is_true :: "pyobj option \<Rightarrow> bool" where
  "is_true x = (case x of None \<Rightarrow> False | Some ob \<Rightarrow> truth ob)"

definition DisplayImpl_mtv ::
  "'n world \<Rightarrow> DisplayImpl \<Rightarrow> pyobj option \<Rightarrow> pyobj option \<Rightarrow> 'n wcs option \<Rightarrow> string
     \<Rightarrow> 'n world" where
  "DisplayImpl_mtv w self img msk wcs title =
     (let w1 = DisplayImpl_erase w self;
          w2 = (case img of
                  None \<Rightarrow> w1
                | Some ob \<Rightarrow>
                    if truth ob
                    then set_image w1 (self_display self)
                           \<lparr>data_np = getArray ob,
                            image_wcs = (case wcs of
                                           None \<Rightarrow> None
                                         | Some x \<Rightarrow> Some \<lparr>self_wcs = x\<rparr>)\<rparr>
                    else w1)
      in if is_true msk
         then print_out w2 ''Mask displays are not yet supported in Ginga''
         else w2)"

definition DisplayImpl_buffer :: "'n world \<Rightarrow> DisplayImpl \<Rightarrow> bool \<Rightarrow> 'n world" where
  "DisplayImpl_buffer w self enable = w"

definition DisplayImpl_flush :: "'n world \<Rightarrow> DisplayImpl \<Rightarrow> 'n world" where
  "DisplayImpl_flush w self = w"

text \<open>
  \<^verbatim>\<open>[float(p) - 1 for p in args]\<close>: each string converted and shifted in turn; the first
  string that is not a number raises ValueError.
\<close>

fun floats_minus_1 :: "('n::{minus,one}) ext \<Rightarrow> string list \<Rightarrow> 'n list option" where
  "floats_minus_1 X [] = Some []"
| "floats_minus_1 X (p # ps) =
     (case pyfloat X p of
        None \<Rightarrow> None
      | Some v \<Rightarrow>
          (case floats_minus_1 X ps of
             None \<Rightarrow> None
           | Some vs \<Rightarrow> Some ((v - 1) # vs)))"

text \<open>\<^verbatim>\<open>tmp = ds9Cmd.split('#'); cmd = tmp.pop(0).split()\<close>: the words before the
  first \<^verbatim>\<open>#\<close>.  The comment after it is read into a variable that is not used.\<close>

definition command_words :: "string \<Rightarrow> pyerr + string list" where
  "command_words ds9Cmd =
     (case split_chr CHR ''#'' ds9Cmd of
        [] \<Rightarrow> Inl (IndexError ''pop from empty list'')
      | t # tmp \<Rightarrow> Inr (split_ws t))"

text \<open>
  The body of the loop of \<^verbatim>\<open>_dot\<close> up to the primitive it hands to
  \<^verbatim>\<open>self._canvas.add\<close>; \<^verbatim>\<open>cmd, args = cmd[0], cmd[1:]\<close> needs a first word.  The
  arguments are converted first; then \<^verbatim>\<open>Line(*coords, color=ctype)\<close> is a call of the
  viewer's line class, whose positional parameters before \<^verbatim>\<open>color\<close> are
  \<^verbatim>\<open>x1, y1, x2, y2\<close>: fewer coordinates leave a parameter without a value and more give
  \<^verbatim>\<open>color\<close> two, and either way the call raises TypeError.
\<close>

definition dot_command ::
  "('n::{minus,one}) ext \<Rightarrow> string \<Rightarrow> ctype \<Rightarrow> string \<Rightarrow> pyerr + 'n prim" where
  "dot_command X symb ctype ds9Cmd =
     (case command_words ds9Cmd of
        Inl e \<Rightarrow> Inl e
      | Inr [] \<Rightarrow> Inl (IndexError ''list index out of range'')
      | Inr (cmd # args) \<Rightarrow>
          if cmd = ''line''
          then (case floats_minus_1 X args of
                  None \<Rightarrow> Inl (ValueError ''could not convert string to float'')
                | Some [x1, y1, x2, y2] \<Rightarrow> Inr (Line [x1, y1, x2, y2] ctype)
                | Some vs \<Rightarrow> Inl (TypeError ''Line() takes x1, y1, x2, y2''))
          else if cmd = ''text''
          then (case floats_minus_1 X (take 2 args) of
                  None \<Rightarrow> Inl (ValueError ''could not convert string to float'')
                | Some [x, y] \<Rightarrow> Inr (Text x y symb ctype)
                | Some vs \<Rightarrow> Inl (ValueError ''not enough values to unpack''))
          else Inl (RuntimeError ds9Cmd))"

fun dot_loop ::
  "('n::{minus,one}) ext \<Rightarrow> 'n world \<Rightarrow> nat \<Rightarrow> string \<Rightarrow> ctype \<Rightarrow> string list
     \<Rightarrow> pyerr option \<times> 'n world" where
  "dot_loop X w k symb ctype [] = (None, w)"
| "dot_loop X w k symb ctype (ds9Cmd # rest) =
     (case dot_command X symb ctype ds9Cmd of
        Inl e \<Rightarrow> (Some e, w)
      | Inr p \<Rightarrow> dot_loop X (canvas_add w k p) k symb ctype rest)"

definition DisplayImpl_dot ::
  "('n::{minus,one}) ext \<Rightarrow> 'n world \<Rightarrow> DisplayImpl \<Rightarrow> 'n symb \<Rightarrow> 'n \<Rightarrow> 'n \<Rightarrow> 'n \<Rightarrow> ctype
     \<Rightarrow> string \<Rightarrow> 'n option \<Rightarrow> pyerr option \<times> 'n world" where
  "DisplayImpl_dot X w self symb c r sz ctype fontFamily textAngle =
     (case symb of
        BaseCore a b theta \<Rightarrow>
          (None, canvas_add w (self_canvas self) (Ellipse c r a b (degrees X theta) ctype))
      | Sym s \<Rightarrow>
          if s = ''o''
          then (None, canvas_add w (self_canvas self) (Circle c r sz ctype))
          else dot_loop X w (self_canvas self) s ctype
                 (ds9dot X s c r sz ''helvetica'' None))"

text \<open>\<^verbatim>\<open>p0 = points[0]; for p in points[1:]: add(Line(p0[0], p0[1], p[0], p[1])); p0 = p\<close>.\<close>

fun drawLines_loop ::
  "'n world \<Rightarrow> nat \<Rightarrow> ctype \<Rightarrow> 'n \<times> 'n \<Rightarrow> ('n \<times> 'n) list \<Rightarrow> 'n world" where
  "drawLines_loop w k ctype p0 [] = w"
| "drawLines_loop w k ctype p0 (p # ps) =
     drawLines_loop (canvas_add w k (Line [fst p0, snd p0, fst p, snd p] ctype)) k ctype p ps"

definition DisplayImpl_drawLines ::
  "'n world \<Rightarrow> DisplayImpl \<Rightarrow> ('n \<times> 'n) list \<Rightarrow> ctype \<Rightarrow> pyerr option \<times> 'n world" where
  "DisplayImpl_drawLines w self points ctype =
     (case points of
        [] \<Rightarrow> (Some (IndexError ''list index out of range''), w)
      | p0 # ps \<Rightarrow> (None, drawLines_loop w (self_canvas self) ctype p0 ps))"

definition DisplayImpl_scale ::
  "'n world \<Rightarrow> DisplayImpl \<Rightarrow> string \<Rightarrow> 'n level \<Rightarrow> 'n level \<Rightarrow> string option
     \<Rightarrow> pyerr option \<times> 'n world" where
  "DisplayImpl_scale w self algorithm mn mx units =
     (let v = self_display self;
          w1 = viewer_call w v (SetColorMap ''gray'');
          w2 = viewer_call w1 v (SetColorAlgorithm algorithm)
      in if mn = LevelName ''zscale''
         then (None, viewer_call
                       (viewer_call w2 v (SetAutocutParams ''zscale'' (Some ''0.25''))) v
                       AutoLevels)
         else if mn = LevelName ''minmax''
         then (None, viewer_call (viewer_call w2 v (SetAutocutParams ''minmax'' None)) v
                       AutoLevels)
         else (case (case units of
                       None \<Rightarrow> Inr w2
                     | Some u \<Rightarrow>
                         if u = [] then Inr w2
                         else map_sum id (print_out w2)
                                (py_format ''ginga: ignoring scale unit %s'' [u])) of
                 Inl e \<Rightarrow> (Some e, w2)
               | Inr w3 \<Rightarrow> (None, viewer_call w3 v (CutLevels mn mx))))"

definition DisplayImpl_zoom :: "'n world \<Rightarrow> DisplayImpl \<Rightarrow> 'n \<Rightarrow> 'n world" where
  "DisplayImpl_zoom w self zoomfac = viewer_call w (self_display self) (ScaleTo zoomfac zoomfac)"

definition DisplayImpl_pan :: "'n world \<Rightarrow> DisplayImpl \<Rightarrow> 'n \<Rightarrow> 'n \<Rightarrow> 'n world" where
  "DisplayImpl_pan w self colc rowc = viewer_call w (self_display self) (SetPan colc rowc)"

definition DisplayImpl_XXX_getEvent ::
  "'n world \<Rightarrow> DisplayImpl \<Rightarrow> pyerr option \<times> 'n world" where
  "DisplayImpl_XXX_getEvent w self = (Some (RuntimeError ''Write me''), w)"

subsection \<open>\<^verbatim>\<open>WcsAdaptorForGinga\<close>\<close>

text \<open>
  The methods return their result with the adaptor as they leave it.
  \<^verbatim>\<open>ra, dec = self._wcs.pixelToSky(*idxs)\<close> unpacks exactly two values.
\<close>

definition WcsAdaptorForGinga_init :: "'n wcs \<Rightarrow> 'n WcsAdaptorForGinga" where
  "WcsAdaptorForGinga_init wcs = \<lparr>self_wcs = wcs\<rparr>"

definition pixtoradec ::
  "'n WcsAdaptorForGinga \<Rightarrow> 'n list \<Rightarrow> string
     \<Rightarrow> (pyerr + 'n \<times> 'n) \<times> 'n WcsAdaptorForGinga" where
  "pixtoradec self idxs coords =
     (case pixelToSky (self_wcs self) idxs of
        Inl e \<Rightarrow> (Inl e, self)
      | Inr [ra, dec] \<Rightarrow> (Inr (asDegrees ra, asDegrees dec), self)
      | Inr vs \<Rightarrow> (Inl (ValueError ''wrong number of values to unpack''), self))"

definition pixtosystem ::
  "'n WcsAdaptorForGinga \<Rightarrow> 'n list \<Rightarrow> string option \<Rightarrow> string
     \<Rightarrow> (pyerr + 'n \<times> 'n) \<times> 'n WcsAdaptorForGinga" where
  "pixtosystem self idxs system coords = pixtoradec self idxs coords"

text \<open>
  \<^verbatim>\<open>return wcs.skyToPixel(ra_deg*afwGeom.degrees, dec_deg*afwGeom.degrees)\<close>: the name is
  \<^verbatim>\<open>wcs\<close>, not \<^verbatim>\<open>self._wcs\<close>; it is not a parameter, so it is read from the module.
  No value of a module-level name has a \<^verbatim>\<open>skyToPixel\<close> attribute.
\<close>

definition radectopix ::
  "(string \<rightharpoonup> pyval) \<Rightarrow> 'n WcsAdaptorForGinga \<Rightarrow> 'n \<Rightarrow> 'n \<Rightarrow> string \<Rightarrow> nat list option
     \<Rightarrow> (pyerr + 'n \<times> 'n) \<times> 'n WcsAdaptorForGinga" where
  "radectopix g self ra_deg dec_deg coords naxispath =
     (case lookup_name g ''wcs'' of
        Inl e \<Rightarrow> (Inl e, self)
      | Inr v \<Rightarrow> (Inl (AttributeError ''skyToPixel''), self))"

subsection \<open>The operations of an instance\<close>

datatype 'n operation =
    Get_viewer
  | Shutdown_server
  | Show_color_bar nat
  | Show_pan_mark nat
  | Close
  | SetMaskTransparency "'n option" "string option"
  | GetMaskTransparency "string option"
  | Mtv "pyobj option" "pyobj option" "'n wcs option" string
  | Buffer bool
  | Flush
  | Erase
  | Dot "'n symb" 'n 'n 'n ctype string "'n option"
  | DrawLines "('n \<times> 'n) list" ctype
  | Scale string "'n level" "'n level" "string option"
  | Zoom 'n
  | Pan 'n 'n
  | XXX_getEvent

fun perform ::
  "('n::{minus,one}) ext \<Rightarrow> 'n world \<Rightarrow> DisplayImpl \<Rightarrow> 'n operation \<Rightarrow> 'n world" where
  "perform X w self Get_viewer = w"
| "perform X w self Shutdown_server = DisplayImpl_shutdown_server w self"
| "perform X w self (Show_color_bar n) = snd (DisplayImpl_show_color_bar w self n)"
| "perform X w self (Show_pan_mark n) = snd (DisplayImpl_show_pan_mark w self n)"
| "perform X w self Close = DisplayImpl_close w self"
| "perform X w self (SetMaskTransparency t m) = snd (DisplayImpl_setMaskTransparency w self t m)"
| "perform X w self (GetMaskTransparency m) = DisplayImpl_getMaskTransparency w self m"
| "perform X w self (Mtv img msk wcs title) = DisplayImpl_mtv w self img msk wcs title"
| "perform X w self (Buffer enable) = DisplayImpl_buffer w self enable"
| "perform X w self Flush = DisplayImpl_flush w self"
| "perform X w self Erase = DisplayImpl_erase w self"
| "perform X w self (Dot symb c r sz ctype ff ta) =
     snd (DisplayImpl_dot X w self symb c r sz ctype ff ta)"
| "perform X w self (DrawLines points ctype) = snd (DisplayImpl_drawLines w self points ctype)"
| "perform X w self (Scale algorithm mn mx units) =
     snd (DisplayImpl_scale w self algorithm mn mx units)"
| "perform X w self (Zoom zoomfac) = DisplayImpl_zoom w self zoomfac"
| "perform X w self (Pan colc rowc) = DisplayImpl_pan w self colc rowc"
| "perform X w self XXX_getEvent = snd (DisplayImpl_XXX_getEvent w self)"

section \<open>Reference notions and example inputs\<close>

text \<open>
  The primitive a region command stands for, in zero-based coordinates: for a
  \<^verbatim>\<open>line\<close> with four arguments, all numbers, the line through those numbers, each
  less 1; for a \<^verbatim>\<open>text\<close> whose first two arguments are numbers, the symbol's text at
  those two numbers, each less 1; for any other command, none.
\<close>

definition region_primitive ::
  "('n::{minus,one}) ext \<Rightarrow> string \<Rightarrow> ctype \<Rightarrow> string \<Rightarrow> 'n prim option" where
  "region_primitive X symb ctype ds9Cmd =
     (case command_words ds9Cmd of
        Inr (name # args) \<Rightarrow>
          if name = ''line''
          then (case those (map (pyfloat X) args) of
                  Some [x1, y1, x2, y2] \<Rightarrow> Some (Line [x1 - 1, y1 - 1, x2 - 1, y2 - 1] ctype)
                | _ \<Rightarrow> None)
          else if name = ''text''
          then (case args of
                  a1 # a2 # rest \<Rightarrow>
                    (case (pyfloat X a1, pyfloat X a2) of
                       (Some x, Some y) \<Rightarrow> Some (Text (x - 1) (y - 1) symb ctype)
                     | _ \<Rightarrow> None)
                | _ \<Rightarrow> None)
          else None
      | _ \<Rightarrow> None)"

text \<open>A region command whose name is neither \<^verbatim>\<open>line\<close> nor \<^verbatim>\<open>text\<close>.\<close>

definition other_command :: "string \<Rightarrow> bool" where
  "other_command ds9Cmd =
     (case command_words ds9Cmd of
        Inr (name # args) \<Rightarrow> name \<noteq> ''line'' \<and> name \<noteq> ''text''
      | _ \<Rightarrow> False)"

text \<open>The line the constructor prints for a format it does not know.\<close>

definition unknown_format_warning :: "string \<Rightarrow> string" where
  "unknown_format_warning cf =
     ''Unknown format '' @ [CHR 0x22] @ cf @ [CHR 0x22] @ '' (allowed: '' @ [CHR 0x22]
       @ ''jpeg'' @ [CHR 0x22] @ '', '' @ [CHR 0x22] @ ''png'' @ [CHR 0x22] @ '')''"

text \<open>
  Example inputs: the display of frame 1 constructed in a fresh process with the default
  arguments; the region commands of a plus sign of size 2 at (10, 10), in one-based
  coordinates, and the ellipse command that stands for those of a symbol given by its
  moments; and the same display after a circle has been drawn on it.
\<close>

definition example_ext :: "int ext" where
  "example_ext =
     \<lparr>ds9dot = (\<lambda>symb c r sz fontFamily textAngle.
                  if symb = ''+''
                  then [''line 11 13 11 9 # color=red'', ''line 9 11 13 11 # color=red'']
                  else [''ellipse 11 11 2i 1i 0 # color=red'']),
      pyfloat = map_of [(''9'', 9), (''11'', 11), (''13'', 13)],
      degrees = (\<lambda>x. x)\<rparr>"

text \<open>
  The same with Python's floats: a plus sign, a letter and a symbol given by its moments
  at (10, 10), their commands with a trailing comment; and a plus sign of size 2 at
  (1e16, 1e16), whose two region lines \<^verbatim>\<open>ds9Regions.dot\<close> writes with
  \<^verbatim>\<open>'line %g %g %g %g'\<close> from numbers that are all the double 1e16, and \<^verbatim>\<open>float\<close>
  reads back as that double.
\<close>

definition float_ext :: "double ext" where
  "float_ext =
     \<lparr>ds9dot = (\<lambda>symb c r sz fontFamily textAngle.
                  if c = Finite 10000000000000000
                  then [''line 1e+16 1e+16 1e+16 1e+16'', ''line 1e+16 1e+16 1e+16 1e+16'']
                  else if symb = ''+''
                  then [''line 11 13 11 9 # color=red'', ''line 9 11 13 11 # color=red'']
                  else if symb = ''A''
                  then [''text 11 11 '' @ [CHR 0x22] @ ''A'' @ [CHR 0x22] @ '' # color=red'']
                  else [''ellipse 11 11 2i 1i 0 # color=red'']),
      pyfloat = map_of [(''9'', Finite 9), (''11'', Finite 11), (''13'', Finite 13),
                        (''1e+16'', Finite 10000000000000000)],
      degrees = (\<lambda>x. x)\<rparr>"

definition float_world :: "double world" where
  "float_world =
     snd (DisplayImpl_init fresh_process 1 False False ''localhost'' 9914 False True ''jpeg'')"

definition example_world :: "int world" where
  "example_world =
     snd (DisplayImpl_init fresh_process 1 False False ''localhost'' 9914 False True ''jpeg'')"

definition example_display :: DisplayImpl where
  "example_display = \<lparr>self_display = 0, self_verbose = False, self_canvas = 0\<rparr>"

definition example_drawn :: "int world" where
  "example_drawn =
     snd (DisplayImpl_dot example_ext example_world example_display (Sym ''o'') 5 5 2 ''red''
            ''helvetica'' None)"

section \<open>Strings and formats\<close>

lemma py_format_plain_arg:
  "CHR ''%'' \<notin> set fmt \<Longrightarrow>
   py_format fmt (a # as) =
     Inl (TypeError ''not all arguments converted during string formatting'')"
  by (induction fmt) auto

lemma unknown_format_line:
  "py_format unknown_format_fmt [cf, j] =
   Inr (''Unknown format '' @ [CHR 0x22] @ cf @ [CHR 0x22] @ '' (allowed: '' @ [CHR 0x22]
          @ j @ [CHR 0x22] @ '')'')"
  by (simp add: unknown_format_fmt_def)

lemma lookup_server_unbound:
  "lookup_name (map_of module_globals) ''server'' = Inl (NameError ''server'')"
  by (simp add: lookup_name_def module_globals_def)

lemma lookup_wcs_unbound:
  "lookup_name (map_of module_globals) ''wcs'' = Inl (NameError ''wcs'')"
  by (simp add: lookup_name_def module_globals_def)

section \<open>What each library operation leaves alone\<close>

lemma get_viewer_keeps:
  "class_server (snd (server_get_viewer w a i)) = class_server w"
  "n_servers (snd (server_get_viewer w a i)) = n_servers w"
  "globals (snd (server_get_viewer w a i)) = globals w"
  "n_canvases (snd (server_get_viewer w a i)) = n_canvases w"
  "canvas_objs (snd (server_get_viewer w a i)) = canvas_objs w"
  "stdout (snd (server_get_viewer w a i)) = stdout w"
  "stderr (snd (server_get_viewer w a i)) = stderr w"
  "sv_running (servers (snd (server_get_viewer w a i)) b) = sv_running (servers w b)"
  by (simp_all add: server_get_viewer_def Let_def split: option.splits)

lemma add_canvas_keeps:
  "class_server (snd (add_canvas w v)) = class_server w"
  "n_servers (snd (add_canvas w v)) = n_servers w"
  "servers (snd (add_canvas w v)) = servers w"
  "globals (snd (add_canvas w v)) = globals w"
  "n_viewers (snd (add_canvas w v)) = n_viewers w"
  "stdout (snd (add_canvas w v)) = stdout w"
  "stderr (snd (add_canvas w v)) = stderr w"
  "n_canvases (snd (add_canvas w v)) = Suc (n_canvases w)"
  "vw_canvases (viewers (snd (add_canvas w v)) u)
     = vw_canvases (viewers w u) @ (if u = v then [n_canvases w] else [])"
  "vw_log (viewers (snd (add_canvas w v)) u) = vw_log (viewers w u)"
  "vw_image (viewers (snd (add_canvas w v)) u) = vw_image (viewers w u)"
  by (simp_all add: add_canvas_def Let_def)

lemma viewer_call_keeps:
  "class_server (viewer_call w v c) = class_server w"
  "n_servers (viewer_call w v c) = n_servers w"
  "servers (viewer_call w v c) = servers w"
  "globals (viewer_call w v c) = globals w"
  "n_viewers (viewer_call w v c) = n_viewers w"
  "n_canvases (viewer_call w v c) = n_canvases w"
  "canvas_objs (viewer_call w v c) = canvas_objs w"
  "stdout (viewer_call w v c) = stdout w"
  "vw_canvases (viewers (viewer_call w v c) u) = vw_canvases (viewers w u)"
  "vw_log (viewers (viewer_call w v c) u) = vw_log (viewers w u) @ (if u = v then [c] else [])"
  "vw_image (viewers (viewer_call w v c) u) = vw_image (viewers w u)"
  by (simp_all add: viewer_call_def)

lemma settings_set_format_keeps:
  "class_server (settings_set_format w v f) = class_server w"
  "n_servers (settings_set_format w v f) = n_servers w"
  "servers (settings_set_format w v f) = servers w"
  "globals (settings_set_format w v f) = globals w"
  "n_viewers (settings_set_format w v f) = n_viewers w"
  "n_canvases (settings_set_format w v f) = n_canvases w"
  "canvas_objs (settings_set_format w v f) = canvas_objs w"
  "stdout (settings_set_format w v f) = stdout w"
  "vw_canvases (viewers (settings_set_format w v f) u) = vw_canvases (viewers w u)"
  "vw_image (viewers (settings_set_format w v f) u) = vw_image (viewers w u)"
  by (simp_all add: settings_set_format_def viewer_call_def)

lemma print_out_keeps:
  "class_server (print_out w l) = class_server w"
  "n_servers (print_out w l) = n_servers w"
  "servers (print_out w l) = servers w"
  "globals (print_out w l) = globals w"
  "n_viewers (print_out w l) = n_viewers w"
  "n_canvases (print_out w l) = n_canvases w"
  "canvas_objs (print_out w l) = canvas_objs w"
  "viewers (print_out w l) = viewers w"
  "stdout (print_out w l) = stdout w @ [l]"
  by (simp_all add: print_out_def)

section \<open>The constructor\<close>

lemma ensure_server_none:
  "class_server w = None \<Longrightarrow>
   ensure_server w host port oc nl =
     (n_servers w,
      w\<lparr>servers := (servers w)
           (n_servers w := \<lparr>sv_host = host, sv_port = port, sv_use_opencv = oc,
                            sv_running = True, sv_no_ioloop = Some nl,
                            sv_viewers = Map.empty\<rparr>),
        n_servers := Suc (n_servers w), class_server := Some (n_servers w)\<rparr>)"
  by (simp add: ensure_server_def make_server_def server_start_def Let_def)

lemma ensure_server_some:
  "class_server w = Some a \<Longrightarrow> ensure_server w host port oc nl = (a, w)"
  by (simp add: ensure_server_def)

lemma init_unfold:
  assumes "ensure_server w host port oc nl = (a, w1)"
      and "server_get_viewer w1 a (py_str_int frame) = (v, w2)"
  shows "DisplayImpl_init w frame verbose opn host port oc nl cf =
    (Inr \<lparr>self_display = v, self_verbose = False, self_canvas = n_canvases w2\<rparr>,
     (if opn then (\<lambda>x. viewer_call x v Open) else id)
       (if cf \<in> set canvas_types
        then settings_set_format (snd (add_canvas w2 v)) v cf
        else print_out (snd (add_canvas w2 v)) (unknown_format_warning cf)))"
  using assms
  by (simp add: DisplayImpl_init_def add_canvas_def Let_def unknown_format_line
        unknown_format_warning_def)
     (simp add: canvas_types_def)

lemma init_server_fields:
  assumes "ensure_server w host port oc nl = (a, w1)"
  shows "class_server (snd (DisplayImpl_init w frame verbose opn host port oc nl cf))
         = class_server w1"
    and "n_servers (snd (DisplayImpl_init w frame verbose opn host port oc nl cf))
         = n_servers w1"
    and "globals (snd (DisplayImpl_init w frame verbose opn host port oc nl cf))
         = globals w1"
    and "sv_running (servers (snd (DisplayImpl_init w frame verbose opn host port oc nl cf)) b)
         = sv_running (servers w1 b)"
proof -
  obtain v w2 where G: "server_get_viewer w1 a (py_str_int frame) = (v, w2)"
    by (cases "server_get_viewer w1 a (py_str_int frame)")
  have w2: "w2 = snd (server_get_viewer w1 a (py_str_int frame))"
    using G by simp
  note U = init_unfold[OF assms G, of verbose opn cf]
  show "class_server (snd (DisplayImpl_init w frame verbose opn host port oc nl cf))
        = class_server w1"
    by (simp add: U viewer_call_keeps settings_set_format_keeps print_out_keeps
          add_canvas_keeps)
       (simp add: w2 get_viewer_keeps)
  show "n_servers (snd (DisplayImpl_init w frame verbose opn host port oc nl cf))
        = n_servers w1"
    by (simp add: U viewer_call_keeps settings_set_format_keeps print_out_keeps
          add_canvas_keeps)
       (simp add: w2 get_viewer_keeps)
  show "globals (snd (DisplayImpl_init w frame verbose opn host port oc nl cf)) = globals w1"
    by (simp add: U viewer_call_keeps settings_set_format_keeps print_out_keeps
          add_canvas_keeps)
       (simp add: w2 get_viewer_keeps)
  show "sv_running (servers (snd (DisplayImpl_init w frame verbose opn host port oc nl cf)) b)
        = sv_running (servers w1 b)"
    by (simp add: U viewer_call_keeps settings_set_format_keeps print_out_keeps
          add_canvas_keeps)
       (simp add: w2 get_viewer_keeps)
qed

section \<open>Drawing in sequence\<close>

lemma canvas_add_then_append:
  "(canvas_add w k p)\<lparr>canvas_objs := (canvas_objs (canvas_add w k p))
      (k := canvas_objs (canvas_add w k p) k @ xs)\<rparr>
   = w\<lparr>canvas_objs := (canvas_objs w)(k := canvas_objs w k @ p # xs)\<rparr>"
  by (simp add: canvas_add_def)

lemma drawLines_loop_segments:
  "drawLines_loop w k ctype p0 ps =
     w\<lparr>canvas_objs := (canvas_objs w)
          (k := canvas_objs w k
                @ map (\<lambda>(p, q). Line [fst p, snd p, fst q, snd q] ctype) (zip (p0 # ps) ps))\<rparr>"
proof (induction ps arbitrary: w p0)
  case Nil
  show ?case by simp
next
  case (Cons p ps)
  let ?seg = "\<lambda>(p, q). Line [fst p, snd p, fst q, snd q] ctype"
  let ?l = "Line [fst p0, snd p0, fst p, snd p] ctype"
  let ?w1 = "canvas_add w k ?l"
  have s1: "drawLines_loop w k ctype p0 (p # ps) = drawLines_loop ?w1 k ctype p ps"
    by (simp only: drawLines_loop.simps)
  have s2: "drawLines_loop ?w1 k ctype p ps
            = ?w1\<lparr>canvas_objs := (canvas_objs ?w1)
                 (k := canvas_objs ?w1 k @ map ?seg (zip (p # ps) ps))\<rparr>"
    by (rule Cons.IH)
  have s3: "?w1\<lparr>canvas_objs := (canvas_objs ?w1)
                 (k := canvas_objs ?w1 k @ map ?seg (zip (p # ps) ps))\<rparr>
            = w\<lparr>canvas_objs := (canvas_objs w)
                 (k := canvas_objs w k @ ?l # map ?seg (zip (p # ps) ps))\<rparr>"
    by (rule canvas_add_then_append)
  have s4: "map ?seg (zip (p0 # p # ps) (p # ps)) = ?l # map ?seg (zip (p # ps) ps)"
    by simp
  show ?case
    by (simp only: s1 s2 s3 s4)
qed

lemma dot_loop_trace:
  "dot_loop X w k symb ctype cmds = (res, w') \<Longrightarrow>
   \<exists>added. w' = w\<lparr>canvas_objs := (canvas_objs w)(k := canvas_objs w k @ added)\<rparr>
     \<and> length added \<le> length cmds
     \<and> (\<forall>i < length added. dot_command X symb ctype (cmds ! i) = Inr (added ! i))
     \<and> (res = None \<longrightarrow> length added = length cmds)
     \<and> (\<forall>e. res = Some e \<longrightarrow> length added < length cmds
            \<and> dot_command X symb ctype (cmds ! length added) = Inl e)"
proof (induction cmds arbitrary: w)
  case Nil
  then show ?case by (intro exI[of _ "[]"]) auto
next
  case (Cons c cs)
  show ?case
  proof (cases "dot_command X symb ctype c")
    case (Inl e)
    with Cons.prems show ?thesis by (intro exI[of _ "[]"]) auto
  next
    case (Inr p)
    with Cons.prems have "dot_loop X (canvas_add w k p) k symb ctype cs = (res, w')"
      by simp
    from Cons.IH[OF this] obtain added where
      A: "w' = (canvas_add w k p)\<lparr>canvas_objs := (canvas_objs (canvas_add w k p))
                 (k := canvas_objs (canvas_add w k p) k @ added)\<rparr>"
      and B: "length added \<le> length cs"
      and C: "\<forall>i < length added. dot_command X symb ctype (cs ! i) = Inr (added ! i)"
      and D: "res = None \<longrightarrow> length added = length cs"
      and E: "\<forall>e. res = Some e \<longrightarrow> length added < length cs
                \<and> dot_command X symb ctype (cs ! length added) = Inl e"
      by blast
    show ?thesis
    proof (intro exI[of _ "p # added"] conjI)
      show "w' = w\<lparr>canvas_objs := (canvas_objs w)(k := canvas_objs w k @ p # added)\<rparr>"
        using A by (simp add: canvas_add_then_append)
      show "length (p # added) \<le> length (c # cs)"
        using B by simp
      show "\<forall>i<length (p # added).
              dot_command X symb ctype ((c # cs) ! i) = Inr ((p # added) ! i)"
        using C Inr by (auto simp: nth_Cons split: nat.splits)
      show "res = None \<longrightarrow> length (p # added) = length (c # cs)"
        using D by simp
      show "\<forall>e. res = Some e \<longrightarrow> length (p # added) < length (c # cs)
              \<and> dot_command X symb ctype ((c # cs) ! length (p # added)) = Inl e"
        using E by simp
    qed
  qed
qed

lemma floats_minus_1_those:
  "floats_minus_1 X args = map_option (map (\<lambda>v. v - 1)) (those (map (pyfloat X) args))"
  by (induction args) (auto split: option.splits)

lemma dot_command_other:
  "other_command ds9Cmd \<Longrightarrow> dot_command X symb ctype ds9Cmd = Inl (RuntimeError ds9Cmd)"
  by (auto simp: other_command_def dot_command_def split: sum.splits list.splits)

section \<open>The coordinate adaptor\<close>

text \<open>
  Claim C2.  The claim: for every wrapped WCS object and every (ra, dec) in degrees,
  \<^verbatim>\<open>radectopix\<close> returns the pixel position the object's sky-to-pixel conversion
  gives, without raising.  The code: in the module as imported, whatever the adaptor
  wraps and whatever the arguments, the call raises NameError on the name \<^verbatim>\<open>wcs\<close>
  and the conversion is never applied.
\<close>

theorem radectopix_raises_NameError:
  "radectopix (map_of module_globals) self ra_deg dec_deg coords naxispath
   = (Inl (NameError ''wcs''), self)"
  by (simp add: radectopix_def lookup_wcs_unbound)

text \<open>
  Claim C5.  For every pixel position and any values of \<^verbatim>\<open>system\<close> and \<^verbatim>\<open>coords\<close>,
  \<^verbatim>\<open>pixtosystem\<close> returns exactly what \<^verbatim>\<open>pixtoradec\<close> returns on that position
  (whatever \<^verbatim>\<open>coords\<close> it is given), and both leave the adaptor as it was: the wrapped
  WCS reference and nothing else.
\<close>

theorem pixtosystem_is_pixtoradec:
  "pixtosystem self idxs system coords = pixtoradec self idxs coords'
   \<and> snd (pixtoradec self idxs coords') = self
   \<and> snd (pixtosystem self idxs system coords) = self"
  by (simp add: pixtosystem_def pixtoradec_def split: sum.splits list.splits)

section \<open>Symbols\<close>

text \<open>
  Claim C10.  The \<^verbatim>\<open>fontFamily\<close> and \<^verbatim>\<open>textAngle\<close> arguments of \<^verbatim>\<open>_dot\<close> never
  influence the outcome: two calls that differ only in them return the same result and
  leave the same store, so the same primitives on the canvas.
\<close>

theorem dot_ignores_font_and_angle:
  "DisplayImpl_dot X w self symb c r sz ctype fontFamily textAngle
   = DisplayImpl_dot X w self symb c r sz ctype fontFamily' textAngle'"
  by (simp add: DisplayImpl_dot_def)

section \<open>The server\<close>

lemma ensure_server_keeps:
  "viewers (snd (ensure_server w host port oc nl)) = viewers w"
  "n_viewers (snd (ensure_server w host port oc nl)) = n_viewers w"
  "n_canvases (snd (ensure_server w host port oc nl)) = n_canvases w"
  "canvas_objs (snd (ensure_server w host port oc nl)) = canvas_objs w"
  "globals (snd (ensure_server w host port oc nl)) = globals w"
  "stdout (snd (ensure_server w host port oc nl)) = stdout w"
  by (cases "class_server w"; simp add: ensure_server_none ensure_server_some)+

lemma get_viewer_cases:
  assumes "server_get_viewer w a i = (v, w2)"
  shows "(n_viewers w2 = n_viewers w \<and> viewers w2 = viewers w)
       \<or> (v = n_viewers w \<and> n_viewers w2 = Suc (n_viewers w)
          \<and> viewers w2 = (viewers w)(v := no_viewer))"
  using assms
  by (auto simp: server_get_viewer_def Let_def split: option.splits)

lemma initGinga_unbound:
  "globals w ''server'' = None \<Longrightarrow>
   initGinga w host port oc nl = (Some (NameError ''server''), w)"
  by (simp add: initGinga_def lookup_name_def)

lemma fresh_fields:
  "class_server (fresh_process :: 'n world) = None"
  "n_servers (fresh_process :: 'n world) = 0"
  "n_viewers (fresh_process :: 'n world) = 0"
  "n_canvases (fresh_process :: 'n world) = 0"
  "globals (fresh_process :: 'n world) = map_of module_globals"
  "stdout (fresh_process :: 'n world) = []"
  "stderr (fresh_process :: 'n world) = []"
  by (simp_all add: fresh_process_def)

lemma example_world_server:
  "class_server example_world = Some 0"
  "n_servers example_world = Suc 0"
  "sv_running (servers example_world 0)"
  "globals example_world = map_of module_globals"
proof -
  note E = ensure_server_none[OF fresh_fields(1), of "''localhost''" 9914 False True]
  show "class_server example_world = Some 0"
    unfolding example_world_def init_server_fields(1)[OF E] by (simp add: fresh_fields)
  show "n_servers example_world = Suc 0"
    unfolding example_world_def init_server_fields(2)[OF E] by (simp add: fresh_fields)
  show "sv_running (servers example_world 0)"
    unfolding example_world_def init_server_fields(4)[OF E] by (simp add: fresh_fields)
  show "globals example_world = map_of module_globals"
    unfolding example_world_def init_server_fields(3)[OF E] by (simp add: fresh_fields)
qed

text \<open>
  Claim C1.  The claim: over every sequence of constructions and calls of
  \<^verbatim>\<open>initGinga\<close>, the server is created and started on first use only and every later
  construction or call reuses it.  The code: \<^verbatim>\<open>initGinga\<close> tests the module-level name
  \<^verbatim>\<open>server\<close>, which the module never binds, so a call in a fresh process raises
  NameError and creates nothing; and after a construction has created and started the
  server of \<^verbatim>\<open>DisplayImpl.server\<close>, a call raises the same NameError instead of
  reusing that server.
\<close>

theorem initGinga_raises_NameError:
  "initGinga (fresh_process :: int world) ''localhost'' 9914 False True
     = (Some (NameError ''server''), fresh_process)
   \<and> class_server example_world = Some 0
   \<and> sv_running (servers example_world 0)
   \<and> initGinga example_world ''localhost'' 9914 False True
     = (Some (NameError ''server''), example_world)"
  by (simp add: initGinga_def example_world_server fresh_fields lookup_server_unbound)

text \<open>
  Claim C6.  \<^verbatim>\<open>shutdown_server\<close> is idempotent: a second call changes nothing more.
  A call always leaves the class's server handle cleared; when a server was held it is
  stopped and nothing else changes; when none was held the call is a no-op.  The next
  construction after a shutdown creates a server at a new address, starts it and makes
  it the class's server.
\<close>

theorem shutdown_server_idempotent:
  "DisplayImpl_shutdown_server (DisplayImpl_shutdown_server w self) self'
     = DisplayImpl_shutdown_server w self
   \<and> class_server (DisplayImpl_shutdown_server w self) = None
   \<and> (\<forall>a. class_server w = Some a \<longrightarrow>
         DisplayImpl_shutdown_server w self
           = w\<lparr>servers := (servers w)(a := (servers w a)\<lparr>sv_running := False\<rparr>),
               class_server := None\<rparr>)
   \<and> (class_server w = None \<longrightarrow> DisplayImpl_shutdown_server w self = w)
   \<and> class_server (snd (DisplayImpl_init (DisplayImpl_shutdown_server w self)
                          frame verbose opn host port oc nl cf)) = Some (n_servers w)
   \<and> n_servers (snd (DisplayImpl_init (DisplayImpl_shutdown_server w self)
                          frame verbose opn host port oc nl cf)) = Suc (n_servers w)
   \<and> sv_running (servers (snd (DisplayImpl_init (DisplayImpl_shutdown_server w self)
                          frame verbose opn host port oc nl cf)) (n_servers w))"
proof -
  let ?s = "DisplayImpl_shutdown_server w self"
  have c: "class_server ?s = None"
    by (simp add: DisplayImpl_shutdown_server_def server_stop_def split: option.splits)
  have n: "n_servers ?s = n_servers w"
    by (simp add: DisplayImpl_shutdown_server_def server_stop_def split: option.splits)
  have i: "DisplayImpl_shutdown_server ?s self' = ?s"
    using c by (simp add: DisplayImpl_shutdown_server_def)
  have s: "\<forall>a. class_server w = Some a \<longrightarrow>
         ?s = w\<lparr>servers := (servers w)(a := (servers w a)\<lparr>sv_running := False\<rparr>),
               class_server := None\<rparr>"
    by (simp add: DisplayImpl_shutdown_server_def server_stop_def)
  have z: "class_server w = None \<longrightarrow> ?s = w"
    by (simp add: DisplayImpl_shutdown_server_def)
  note E = ensure_server_none[OF c, of host port oc nl]
  have f1: "class_server (snd (DisplayImpl_init ?s frame verbose opn host port oc nl cf))
            = Some (n_servers w)"
    unfolding init_server_fields(1)[OF E] by (simp add: n)
  have f2: "n_servers (snd (DisplayImpl_init ?s frame verbose opn host port oc nl cf))
            = Suc (n_servers w)"
    unfolding init_server_fields(2)[OF E] by (simp add: n)
  have f3: "sv_running (servers (snd (DisplayImpl_init ?s frame verbose opn host port oc nl cf))
              (n_servers w))"
    unfolding init_server_fields(4)[OF E] by (simp add: n)
  from i c s z f1 f2 f3 show ?thesis by blast
qed

text \<open>The shutdown at the example display, which holds server 0, and in a fresh process,
  which holds none.\<close>

theorem shutdown_server_idempotent_witness:
  "class_server example_world = Some 0
   \<and> DisplayImpl_shutdown_server example_world example_display
     = example_world\<lparr>servers := (servers example_world)
                         (0 := (servers example_world 0)\<lparr>sv_running := False\<rparr>),
                     class_server := None\<rparr>
   \<and> class_server (fresh_process :: int world) = None
   \<and> DisplayImpl_shutdown_server (fresh_process :: int world) example_display = fresh_process"
  using shutdown_server_idempotent[of example_world example_display]
        shutdown_server_idempotent[of "fresh_process :: int world" example_display]
        example_world_server(1) fresh_fields(1)[where 'n = int]
  by blast

section \<open>Canvases\<close>

lemma init_result:
  "\<exists>self w'. DisplayImpl_init w frame verbose opn host port oc nl cf = (Inr self, w')"
proof -
  obtain a w1 where E: "ensure_server w host port oc nl = (a, w1)"
    by (cases "ensure_server w host port oc nl")
  obtain v w2 where G: "server_get_viewer w1 a (py_str_int frame) = (v, w2)"
    by (cases "server_get_viewer w1 a (py_str_int frame)")
  show ?thesis
    by (simp add: init_unfold[OF E G])
qed

lemma init_canvases:
  assumes "DisplayImpl_init w frame verbose opn host port oc nl cf = (r, w')"
  shows "r = Inr \<lparr>self_display = fst (server_get_viewer (snd (ensure_server w host port oc nl))
                     (fst (ensure_server w host port oc nl)) (py_str_int frame)),
                  self_verbose = False, self_canvas = n_canvases w\<rparr>"
    and "n_canvases w' = Suc (n_canvases w)"
    and "vw_canvases (viewers w' u) =
          (if u = fst (server_get_viewer (snd (ensure_server w host port oc nl))
                     (fst (ensure_server w host port oc nl)) (py_str_int frame))
           then (if n_viewers w' = n_viewers w then vw_canvases (viewers w u) else [])
                @ [n_canvases w]
           else vw_canvases (viewers w u))"
    and "stdout w' = stdout w @ (if cf \<in> set canvas_types then [] else [unknown_format_warning cf])"
proof -
  obtain a w1 where E: "ensure_server w host port oc nl = (a, w1)"
    by (cases "ensure_server w host port oc nl")
  obtain v w2 where G: "server_get_viewer w1 a (py_str_int frame) = (v, w2)"
    by (cases "server_get_viewer w1 a (py_str_int frame)")
  have w1: "w1 = snd (ensure_server w host port oc nl)" using E by simp
  have w2: "w2 = snd (server_get_viewer w1 a (py_str_int frame))" using G by simp
  have k1: "viewers w1 = viewers w" "n_viewers w1 = n_viewers w" "n_canvases w1 = n_canvases w"
    "stdout w1 = stdout w"
    by (simp_all add: w1 ensure_server_keeps)
  have k2: "n_canvases w2 = n_canvases w" "stdout w2 = stdout w"
    by (simp_all add: w2 get_viewer_keeps k1)
  note U = init_unfold[OF E G, of verbose opn cf]
  from assms U have r: "r = Inr \<lparr>self_display = v, self_verbose = False, self_canvas = n_canvases w2\<rparr>"
    and w': "w' = (if opn then (\<lambda>x. viewer_call x v Open) else id)
       (if cf \<in> set canvas_types
        then settings_set_format (snd (add_canvas w2 v)) v cf
        else print_out (snd (add_canvas w2 v)) (unknown_format_warning cf))"
    by simp_all
  have nv: "n_viewers w' = n_viewers w2"
    by (simp add: w' viewer_call_keeps settings_set_format_keeps print_out_keeps add_canvas_keeps)
  have cv: "vw_canvases (viewers w' u) = vw_canvases (viewers w2 u) @ (if u = v then [n_canvases w2] else [])"
    by (simp add: w' viewer_call_keeps settings_set_format_keeps print_out_keeps add_canvas_keeps)
  show "r = Inr \<lparr>self_display = fst (server_get_viewer (snd (ensure_server w host port oc nl))
                     (fst (ensure_server w host port oc nl)) (py_str_int frame)),
                  self_verbose = False, self_canvas = n_canvases w\<rparr>"
    using r E G k2 by simp
  show "n_canvases w' = Suc (n_canvases w)"
    by (simp add: w' viewer_call_keeps settings_set_format_keeps print_out_keeps
          add_canvas_keeps k2)
  show "stdout w' = stdout w @ (if cf \<in> set canvas_types then [] else [unknown_format_warning cf])"
    by (simp add: w' viewer_call_keeps settings_set_format_keeps print_out_keeps
          add_canvas_keeps k2)
  from get_viewer_cases[OF G] k1
  have C: "(n_viewers w2 = n_viewers w \<and> viewers w2 = viewers w)
       \<or> (v = n_viewers w \<and> n_viewers w2 = Suc (n_viewers w)
          \<and> viewers w2 = (viewers w)(v := no_viewer))"
    by simp
  show "vw_canvases (viewers w' u) =
          (if u = fst (server_get_viewer (snd (ensure_server w host port oc nl))
                     (fst (ensure_server w host port oc nl)) (py_str_int frame))
           then (if n_viewers w' = n_viewers w then vw_canvases (viewers w u) else [])
                @ [n_canvases w]
           else vw_canvases (viewers w u))"
    using C E G by (auto simp: cv nv k2 no_viewer_def)
qed

lemma init_canvas_objs:
  "canvas_objs (snd (DisplayImpl_init w frame verbose opn host port oc nl cf))
   = (canvas_objs w)(n_canvases w := [])"
proof -
  obtain a w1 where E: "ensure_server w host port oc nl = (a, w1)"
    by (cases "ensure_server w host port oc nl")
  obtain v w2 where G: "server_get_viewer w1 a (py_str_int frame) = (v, w2)"
    by (cases "server_get_viewer w1 a (py_str_int frame)")
  have w1: "w1 = snd (ensure_server w host port oc nl)" using E by simp
  have w2: "w2 = snd (server_get_viewer w1 a (py_str_int frame))" using G by simp
  have k: "canvas_objs w2 = canvas_objs w" "n_canvases w2 = n_canvases w"
    by (simp_all add: w2 get_viewer_keeps) (simp_all add: w1 ensure_server_keeps)
  have "canvas_objs (snd (add_canvas w2 v)) = (canvas_objs w2)(n_canvases w2 := [])"
    by (simp add: add_canvas_def Let_def)
  then show ?thesis
    by (simp add: init_unfold[OF E G] viewer_call_keeps settings_set_format_keeps
          print_out_keeps k)
qed

lemma example_construction:
  "DisplayImpl_init fresh_process 1 False False ''localhost'' 9914 False True ''jpeg''
   = (Inr example_display, example_world)"
proof -
  let ?r = "DisplayImpl_init (fresh_process :: int world) 1 False False ''localhost'' 9914
              False True ''jpeg''"
  have p: "?r = (fst ?r, snd ?r)"
    by simp
  have v: "fst (server_get_viewer
              (snd (ensure_server (fresh_process :: int world) ''localhost'' 9914 False True))
              (fst (ensure_server (fresh_process :: int world) ''localhost'' 9914 False True))
              (py_str_int 1)) = 0"
    by (simp add: ensure_server_none fresh_fields server_get_viewer_def Let_def)
  from init_canvases(1)[OF p] v have "fst ?r = Inr example_display"
    by (simp add: example_display_def fresh_fields)
  with p show ?thesis
    by (simp add: example_world_def)
qed

lemma example_world_canvas: "canvas_objs example_world 0 = []"
  by (simp add: example_world_def init_canvas_objs fresh_fields)

lemma example_drawn_eq:
  "example_drawn = canvas_add example_world 0 (Circle 5 5 2 ''red'')"
  by (simp add: example_drawn_def DisplayImpl_dot_def example_display_def)

lemma dot_loop_keeps:
  "viewers (snd (dot_loop X w k s ctype cmds)) = viewers w"
  "n_canvases (snd (dot_loop X w k s ctype cmds)) = n_canvases w"
proof -
  obtain res w' where L: "dot_loop X w k s ctype cmds = (res, w')"
    by (cases "dot_loop X w k s ctype cmds")
  from dot_loop_trace[OF L] obtain added where
    "w' = w\<lparr>canvas_objs := (canvas_objs w)(k := canvas_objs w k @ added)\<rparr>"
    by blast
  with L show "viewers (snd (dot_loop X w k s ctype cmds)) = viewers w"
    and "n_canvases (snd (dot_loop X w k s ctype cmds)) = n_canvases w"
    by simp_all
qed

lemma perform_keeps_canvases:
  "vw_canvases (viewers (perform X w self op) u) = vw_canvases (viewers w u)
   \<and> n_canvases (perform X w self op) = n_canvases w"
proof (cases op)
  case (Dot symb c r sz ctype ff ta)
  then show ?thesis
    by (cases symb) (simp_all add: DisplayImpl_dot_def canvas_add_def dot_loop_keeps)
next
  case (DrawLines points ctype)
  then show ?thesis
    by (cases points) (simp_all add: DisplayImpl_drawLines_def drawLines_loop_segments)
next
  case (Mtv img msk wcs title)
  then show ?thesis
    by (cases img; cases "is_true msk")
       (simp_all add: DisplayImpl_mtv_def DisplayImpl_erase_def delete_all_objects_def
          set_image_def print_out_def Let_def)
next
  case (Scale algorithm mn mx units)
  then show ?thesis
    by (cases units)
       (simp_all add: DisplayImpl_scale_def Let_def viewer_call_keeps print_out_keeps)
next
  case Shutdown_server
  then show ?thesis
    by (simp add: DisplayImpl_shutdown_server_def server_stop_def split: option.splits)
next
  case (SetMaskTransparency t m)
  then show ?thesis
    by (cases m) (simp_all add: DisplayImpl_setMaskTransparency_def py_format_plain_arg)
qed (simp_all add: DisplayImpl_show_color_bar_def DisplayImpl_show_pan_mark_def
       DisplayImpl_close_def DisplayImpl_getMaskTransparency_def DisplayImpl_buffer_def
       DisplayImpl_flush_def DisplayImpl_erase_def delete_all_objects_def
       DisplayImpl_zoom_def DisplayImpl_pan_def DisplayImpl_XXX_getEvent_def
       viewer_call_keeps split: sum.splits)

lemma fold_perform_keeps_canvases:
  "vw_canvases (viewers (fold (\<lambda>op x. perform X x self op) ops w) u) = vw_canvases (viewers w u)
   \<and> n_canvases (fold (\<lambda>op x. perform X x self op) ops w) = n_canvases w"
  by (induction ops arbitrary: w) (simp_all add: perform_keeps_canvases)

text \<open>
  Claim C7.  Every display owns exactly one canvas.  Construction allocates one new canvas,
  which becomes the display's, and appends it to the canvases of the display's viewer
  (those the viewer had, none if this construction created the viewer); every other
  viewer keeps its canvases.  No sequence of operations on the instance changes the
  canvases of any viewer or the number of canvases.  Erasing, in any store, is exactly
  the removal of every object from the display's canvas: after any sequence of operations
  it leaves that canvas empty and leaves it, like every canvas, on its viewer.
\<close>

theorem one_canvas_per_display:
  assumes "DisplayImpl_init w frame verbose opn host port oc nl cf = (Inr self, w')"
  shows "self_canvas self = n_canvases w
    \<and> n_canvases w' = Suc (n_canvases w)
    \<and> (\<forall>u. vw_canvases (viewers w' u) =
            (if u = self_display self
             then (if n_viewers w' = n_viewers w then vw_canvases (viewers w u) else [])
                  @ [self_canvas self]
             else vw_canvases (viewers w u)))
    \<and> (\<forall>ops u. vw_canvases (viewers (fold (\<lambda>op x. perform X x self op) ops w') u)
                 = vw_canvases (viewers w' u))
    \<and> (\<forall>ops. n_canvases (fold (\<lambda>op x. perform X x self op) ops w') = n_canvases w')
    \<and> canvas_objs (DisplayImpl_erase w' self) (self_canvas self) = []
    \<and> (\<forall>u. vw_canvases (viewers (DisplayImpl_erase w' self) u) = vw_canvases (viewers w' u))
    \<and> (\<forall>x. DisplayImpl_erase x self
             = x\<lparr>canvas_objs := (canvas_objs x)(self_canvas self := [])\<rparr>)
    \<and> (\<forall>ops. canvas_objs
                 (DisplayImpl_erase (fold (\<lambda>op x. perform X x self op) ops w') self)
                 (self_canvas self) = [])
    \<and> (\<forall>ops u. vw_canvases
                   (viewers (DisplayImpl_erase (fold (\<lambda>op x. perform X x self op) ops w') self)
                      u)
                 = vw_canvases (viewers w' u))"
proof -
  from init_canvases(1)[OF assms]
  have d: "self_display self
           = fst (server_get_viewer (snd (ensure_server w host port oc nl))
                   (fst (ensure_server w host port oc nl)) (py_str_int frame))"
    and k: "self_canvas self = n_canvases w"
    by simp_all
  have c: "\<forall>u. vw_canvases (viewers w' u) =
            (if u = self_display self
             then (if n_viewers w' = n_viewers w then vw_canvases (viewers w u) else [])
                  @ [self_canvas self]
             else vw_canvases (viewers w u))"
    using init_canvases(3)[OF assms] by (simp add: d k)
  have e: "canvas_objs (DisplayImpl_erase w' self) (self_canvas self) = []"
    "\<forall>u. vw_canvases (viewers (DisplayImpl_erase w' self) u) = vw_canvases (viewers w' u)"
    by (simp_all add: DisplayImpl_erase_def delete_all_objects_def)
  have f: "\<forall>ops u. vw_canvases (viewers (fold (\<lambda>op x. perform X x self op) ops w') u)
                 = vw_canvases (viewers w' u)"
    "\<forall>ops. n_canvases (fold (\<lambda>op x. perform X x self op) ops w') = n_canvases w'"
    by (simp_all add: fold_perform_keeps_canvases)
  have g: "\<forall>x. DisplayImpl_erase x self
             = x\<lparr>canvas_objs := (canvas_objs x)(self_canvas self := [])\<rparr>"
    "\<forall>ops. canvas_objs
                 (DisplayImpl_erase (fold (\<lambda>op x. perform X x self op) ops w') self)
                 (self_canvas self) = []"
    by (simp_all add: DisplayImpl_erase_def delete_all_objects_def)
  have h: "\<forall>ops u. vw_canvases
                   (viewers (DisplayImpl_erase (fold (\<lambda>op x. perform X x self op) ops w') self)
                      u)
                 = vw_canvases (viewers w' u)"
    by (simp add: DisplayImpl_erase_def delete_all_objects_def fold_perform_keeps_canvases)
  from k init_canvases(2)[OF assms] c f e g h show ?thesis
    by blast
qed

text \<open>The construction of the example display, followed by a circle, an erase and an
  empty image call: the circle is on the canvas until the erase removes it.\<close>

theorem one_canvas_per_display_witness:
  "DisplayImpl_init (fresh_process :: int world) 1 False False ''localhost'' 9914 False True
     ''jpeg'' = (Inr example_display, example_world)
   \<and> self_canvas example_display = n_canvases (fresh_process :: int world)
   \<and> n_canvases example_world = Suc 0
   \<and> vw_canvases (viewers example_world 0) = [0]
   \<and> vw_canvases (viewers (fold (\<lambda>op x. perform example_ext x example_display op)
        [Dot (Sym ''o'') 5 5 2 ''red'' ''helvetica'' None, Erase, Mtv None None None []]
        example_world) 0) = [0]
   \<and> canvas_objs (fold (\<lambda>op x. perform example_ext x example_display op)
        [Dot (Sym ''o'') 5 5 2 ''red'' ''helvetica'' None] example_world) 0
     = [Circle 5 5 2 ''red'']
   \<and> fold (\<lambda>op x. perform example_ext x example_display op)
        [Dot (Sym ''o'') 5 5 2 ''red'' ''helvetica'' None, Erase] example_world
     = DisplayImpl_erase (fold (\<lambda>op x. perform example_ext x example_display op)
        [Dot (Sym ''o'') 5 5 2 ''red'' ''helvetica'' None] example_world) example_display
   \<and> canvas_objs (DisplayImpl_erase (fold (\<lambda>op x. perform example_ext x example_display op)
        [Dot (Sym ''o'') 5 5 2 ''red'' ''helvetica'' None] example_world) example_display)
        (self_canvas example_display) = []"
proof -
  note T = one_canvas_per_display[OF example_construction, where X = example_ext]
  from T have a: "self_canvas example_display = n_canvases (fresh_process :: int world)"
    by blast
  from T have "n_canvases example_world = Suc (n_canvases (fresh_process :: int world))"
    by blast
  then have b: "n_canvases example_world = Suc 0"
    by (simp add: fresh_fields)
  from T have "\<forall>u. vw_canvases (viewers example_world u) =
            (if u = self_display example_display
             then (if n_viewers example_world = n_viewers (fresh_process :: int world)
                   then vw_canvases (viewers (fresh_process :: int world) u) else [])
                  @ [self_canvas example_display]
             else vw_canvases (viewers (fresh_process :: int world) u))"
    by blast
  from this[rule_format, of 0] have c: "vw_canvases (viewers example_world 0) = [0]"
    by (simp add: example_display_def fresh_process_def no_viewer_def)
  from T have "\<forall>ops u. vw_canvases (viewers (fold (\<lambda>op x. perform example_ext x example_display op)
                   ops example_world) u) = vw_canvases (viewers example_world u)"
    by blast
  from this[rule_format, of _ 0] c
  have d: "vw_canvases (viewers (fold (\<lambda>op x. perform example_ext x example_display op)
        [Dot (Sym ''o'') 5 5 2 ''red'' ''helvetica'' None, Erase, Mtv None None None []]
        example_world) 0) = [0]"
    by (simp only:)
  have "fold (\<lambda>op x. perform example_ext x example_display op)
        [Dot (Sym ''o'') 5 5 2 ''red'' ''helvetica'' None] example_world = example_drawn"
    by (simp add: example_drawn_def)
  then have e: "canvas_objs (fold (\<lambda>op x. perform example_ext x example_display op)
        [Dot (Sym ''o'') 5 5 2 ''red'' ''helvetica'' None] example_world) 0
     = [Circle 5 5 2 ''red'']"
    by (simp add: example_drawn_eq canvas_add_def example_world_canvas)
  have f: "fold (\<lambda>op x. perform example_ext x example_display op)
        [Dot (Sym ''o'') 5 5 2 ''red'' ''helvetica'' None, Erase] example_world
     = DisplayImpl_erase (fold (\<lambda>op x. perform example_ext x example_display op)
        [Dot (Sym ''o'') 5 5 2 ''red'' ''helvetica'' None] example_world) example_display"
    by simp
  from T have "\<forall>ops. canvas_objs
                 (DisplayImpl_erase (fold (\<lambda>op x. perform example_ext x example_display op)
                    ops example_world) example_display)
                 (self_canvas example_display) = []"
    by blast
  then have g: "canvas_objs (DisplayImpl_erase
        (fold (\<lambda>op x. perform example_ext x example_display op)
        [Dot (Sym ''o'') 5 5 2 ''red'' ''helvetica'' None] example_world) example_display)
        (self_canvas example_display) = []"
    by blast
  from example_construction a b c d e f g show ?thesis
    by blast
qed

section \<open>Images and masks\<close>

text \<open>
  Claim C8.  Every call of \<^verbatim>\<open>_mtv\<close> erases first: its outcome is the image step and
  the mask warning applied to the erased store, and in every case the display's canvas
  holds no object afterwards.  With image and mask both absent the call is exactly an
  erase: no image is set and nothing is printed.
\<close>

theorem mtv_erases_first:
  "DisplayImpl_mtv w self img msk wcs title =
     (if is_true msk
      then (\<lambda>x. print_out x ''Mask displays are not yet supported in Ginga'')
      else (\<lambda>x. x))
       ((if is_true img
         then (\<lambda>x. set_image x (self_display self)
                     \<lparr>data_np = getArray (the img),
                      image_wcs = map_option WcsAdaptorForGinga_init wcs\<rparr>)
         else (\<lambda>x. x))
          (DisplayImpl_erase w self))
   \<and> DisplayImpl_mtv w self img msk wcs title
     = DisplayImpl_mtv (DisplayImpl_erase w self) self img msk wcs title
   \<and> canvas_objs (DisplayImpl_erase w self) (self_canvas self) = []
   \<and> canvas_objs (DisplayImpl_mtv w self img msk wcs title) (self_canvas self) = []
   \<and> DisplayImpl_mtv w self None None wcs title = DisplayImpl_erase w self
   \<and> viewers (DisplayImpl_mtv w self None None wcs title) = viewers w
   \<and> stdout (DisplayImpl_mtv w self None None wcs title) = stdout w"
  by (cases img; cases "is_true msk"; cases wcs)
     (simp_all add: DisplayImpl_mtv_def DisplayImpl_erase_def delete_all_objects_def
        set_image_def print_out_def WcsAdaptorForGinga_init_def Let_def is_true_def)

text \<open>
  Claim C3, as stated, fails.  On the example display with a circle drawn, \<^verbatim>\<open>_mtv\<close>
  with a mask removes the circle, so the display state changes;
  \<^verbatim>\<open>_setMaskTransparency\<close> for the plane \<^verbatim>\<open>BAD\<close> raises TypeError from the string
  formatting and prints nothing; and a construction with the format \<^verbatim>\<open>gif\<close> changes the
  state as every construction does: the store has a canvas more.
\<close>

theorem unsupported_requests_counterexample:
  "canvas_objs example_drawn 0 = [Circle 5 5 2 ''red'']
   \<and> canvas_objs (DisplayImpl_mtv example_drawn example_display None (Some (Obj True 7)) None
                    []) 0 = []
   \<and> DisplayImpl_mtv example_drawn example_display None (Some (Obj True 7)) None []
     \<noteq> example_drawn
   \<and> DisplayImpl_setMaskTransparency example_world example_display None (Some ''BAD'')
     = (Some (TypeError ''not all arguments converted during string formatting''),
        example_world)
   \<and> n_canvases (fresh_process :: int world) = 0
   \<and> n_canvases (snd (DisplayImpl_init (fresh_process :: int world) 1 False False
                        ''localhost'' 9914 False True ''gif'')) = Suc 0"
proof -
  have a: "canvas_objs example_drawn 0 = [Circle 5 5 2 ''red'']"
    by (simp add: example_drawn_eq canvas_add_def example_world_canvas)
  have b: "canvas_objs (DisplayImpl_mtv example_drawn example_display None (Some (Obj True 7)) None
                    []) 0
           = []"
    by (simp add: DisplayImpl_mtv_def DisplayImpl_erase_def delete_all_objects_def
          print_out_def example_display_def Let_def is_true_def)
  from a b have c: "DisplayImpl_mtv example_drawn example_display None (Some (Obj True 7)) None []
     \<noteq> example_drawn"
    by auto
  have d: "DisplayImpl_setMaskTransparency example_world example_display None (Some ''BAD'')
     = (Some (TypeError ''not all arguments converted during string formatting''),
        example_world)"
    by (simp add: DisplayImpl_setMaskTransparency_def py_format_plain_arg)
  obtain r w' where i: "DisplayImpl_init (fresh_process :: int world) 1 False False
                          ''localhost'' 9914 False True ''gif'' = (r, w')"
    by (cases "DisplayImpl_init (fresh_process :: int world) 1 False False
                 ''localhost'' 9914 False True ''gif''")
  from init_canvases(2)[OF i] i
  have e: "n_canvases (fresh_process :: int world) = 0"
    "n_canvases (snd (DisplayImpl_init (fresh_process :: int world) 1 False False
                        ''localhost'' 9914 False True ''gif'')) = Suc 0"
    by (simp_all add: fresh_fields)
  from a b c d e show ?thesis
    by blast
qed

lemma init_steps:
  "DisplayImpl_init w frame verbose opn host port oc nl cf =
     (case ensure_server w host port oc nl of
        (a, w1) \<Rightarrow>
          (case server_get_viewer w1 a (py_str_int frame) of
             (v, w2) \<Rightarrow>
               (case add_canvas w2 v of
                  (k, w3) \<Rightarrow>
                    (Inr \<lparr>self_display = v, self_verbose = False, self_canvas = k\<rparr>,
                     (if opn then (\<lambda>x. viewer_call x v Open) else (\<lambda>x. x))
                       (if cf \<in> set canvas_types
                        then settings_set_format w3 v cf
                        else print_out w3 (unknown_format_warning cf))))))"
  by (simp add: DisplayImpl_init_def Let_def unknown_format_line unknown_format_warning_def
        split: prod.splits)
     (simp add: canvas_types_def)

text \<open>
  Claim C3, amended.  \<^verbatim>\<open>_mtv\<close> with a mask does what the same call without the mask
  does (erase, then set the image if one is given) and then prints that masks are not
  supported; it has no way to raise.  Constructing a display with a format other than
  \<^verbatim>\<open>jpeg\<close> and \<^verbatim>\<open>png\<close> takes the steps of every construction - the server step,
  the server's viewer for the frame, one new canvas on it - returns the display of that
  viewer and canvas, and prints the unknown-format warning where a construction with a
  known format makes the settings call; it makes no settings call.
  \<^verbatim>\<open>_setMaskTransparency\<close> for a named plane leaves servers, viewers and canvases as
  they were.
\<close>

theorem unsupported_requests_amended:
  "DisplayImpl_mtv w self img (Some (Obj True m)) wcs title
     = print_out (DisplayImpl_mtv w self img None wcs title)
         ''Mask displays are not yet supported in Ginga''
   \<and> (cf \<notin> set canvas_types \<longrightarrow>
        DisplayImpl_init w frame verbose opn host port oc nl cf =
          (case ensure_server w host port oc nl of
             (a, w1) \<Rightarrow>
               (case server_get_viewer w1 a (py_str_int frame) of
                  (v, w2) \<Rightarrow>
                    (case add_canvas w2 v of
                       (k, w3) \<Rightarrow>
                         (Inr \<lparr>self_display = v, self_verbose = False, self_canvas = k\<rparr>,
                          (if opn then (\<lambda>x. viewer_call x v Open) else (\<lambda>x. x))
                            (print_out w3 (unknown_format_warning cf)))))))
   \<and> (cf \<in> set canvas_types \<longrightarrow>
        DisplayImpl_init w frame verbose opn host port oc nl cf =
          (case ensure_server w host port oc nl of
             (a, w1) \<Rightarrow>
               (case server_get_viewer w1 a (py_str_int frame) of
                  (v, w2) \<Rightarrow>
                    (case add_canvas w2 v of
                       (k, w3) \<Rightarrow>
                         (Inr \<lparr>self_display = v, self_verbose = False, self_canvas = k\<rparr>,
                          (if opn then (\<lambda>x. viewer_call x v Open) else (\<lambda>x. x))
                            (settings_set_format w3 v cf))))))
   \<and> servers (snd (DisplayImpl_setMaskTransparency w self t (Some p))) = servers w
   \<and> viewers (snd (DisplayImpl_setMaskTransparency w self t (Some p))) = viewers w
   \<and> canvas_objs (snd (DisplayImpl_setMaskTransparency w self t (Some p))) = canvas_objs w
   \<and> class_server (snd (DisplayImpl_setMaskTransparency w self t (Some p))) = class_server w"
proof -
  have a: "DisplayImpl_mtv w self img (Some (Obj True m)) wcs title
     = print_out (DisplayImpl_mtv w self img None wcs title)
         ''Mask displays are not yet supported in Ginga''"
    by (simp add: DisplayImpl_mtv_def Let_def is_true_def)
  have c: "snd (DisplayImpl_setMaskTransparency w self t (Some p)) = w"
    by (simp add: DisplayImpl_setMaskTransparency_def py_format_plain_arg)
  show ?thesis
    unfolding c using a by (simp add: init_steps[of w frame verbose opn host port oc nl cf])
qed

text \<open>The constructions with the formats \<^verbatim>\<open>gif\<close> and \<^verbatim>\<open>png\<close> in a fresh process: the
  same display, server 0, viewer 0 and canvas 0; a warning for the one, the settings call
  for the other.\<close>

theorem unsupported_requests_amended_witness:
  "''gif'' \<notin> set canvas_types
   \<and> DisplayImpl_init (fresh_process :: int world) 1 False False ''localhost'' 9914 False True
       ''gif''
     = (Inr example_display,
        print_out
          (snd (add_canvas
             (snd (server_get_viewer
                (snd (ensure_server (fresh_process :: int world) ''localhost'' 9914 False True))
                0 (py_str_int 1))) 0))
          (unknown_format_warning ''gif''))
   \<and> ''png'' \<in> set canvas_types
   \<and> DisplayImpl_init (fresh_process :: int world) 1 False False ''localhost'' 9914 False True
       ''png''
     = (Inr example_display,
        settings_set_format
          (snd (add_canvas
             (snd (server_get_viewer
                (snd (ensure_server (fresh_process :: int world) ''localhost'' 9914 False True))
                0 (py_str_int 1))) 0))
          0 ''png'')"
proof -
  have g: "''gif'' \<notin> set canvas_types" and j: "''png'' \<in> set canvas_types"
    by (simp_all add: canvas_types_def)
  have e: "ensure_server (fresh_process :: int world) ''localhost'' 9914 False True
           = (0, snd (ensure_server (fresh_process :: int world) ''localhost'' 9914 False True))"
    by (simp add: ensure_server_none fresh_fields)
  have v: "server_get_viewer
             (snd (ensure_server (fresh_process :: int world) ''localhost'' 9914 False True))
             0 (py_str_int 1)
           = (0, snd (server_get_viewer
                (snd (ensure_server (fresh_process :: int world) ''localhost'' 9914 False True))
                0 (py_str_int 1)))"
    by (simp add: ensure_server_none fresh_fields server_get_viewer_def Let_def)
  have k: "add_canvas
             (snd (server_get_viewer
                (snd (ensure_server (fresh_process :: int world) ''localhost'' 9914 False True))
                0 (py_str_int 1))) 0
           = (0, snd (add_canvas
             (snd (server_get_viewer
                (snd (ensure_server (fresh_process :: int world) ''localhost'' 9914 False True))
                0 (py_str_int 1))) 0))"
    by (simp add: add_canvas_def Let_def get_viewer_keeps ensure_server_keeps fresh_fields)
  note T1 = unsupported_requests_amended
         [where cf = "''gif''" and w = "fresh_process :: int world" and frame = 1
            and verbose = False and opn = False and host = "''localhost''" and port = 9914
            and oc = False and nl = True]
  note T2 = unsupported_requests_amended
         [where cf = "''png''" and w = "fresh_process :: int world" and frame = 1
            and verbose = False and opn = False and host = "''localhost''" and port = 9914
            and oc = False and nl = True]
  from T1 g have "DisplayImpl_init (fresh_process :: int world) 1 False False ''localhost'' 9914
       False True ''gif''
     = (case ensure_server (fresh_process :: int world) ''localhost'' 9914 False True of
             (a, w1) \<Rightarrow>
               (case server_get_viewer w1 a (py_str_int 1) of
                  (v, w2) \<Rightarrow>
                    (case add_canvas w2 v of
                       (k, w3) \<Rightarrow>
                         (Inr \<lparr>self_display = v, self_verbose = False, self_canvas = k\<rparr>,
                          (if False then (\<lambda>x. viewer_call x v Open) else (\<lambda>x. x))
                            (print_out w3 (unknown_format_warning ''gif''))))))"
    by blast
  also have "\<dots> = (Inr example_display,
        print_out
          (snd (add_canvas
             (snd (server_get_viewer
                (snd (ensure_server (fresh_process :: int world) ''localhost'' 9914 False True))
                0 (py_str_int 1))) 0))
          (unknown_format_warning ''gif''))"
    by (subst e, simp only: prod.case, subst v, simp only: prod.case, subst k)
       (simp add: example_display_def)
  finally have a: "DisplayImpl_init (fresh_process :: int world) 1 False False ''localhost'' 9914
       False True ''gif''
     = (Inr example_display,
        print_out
          (snd (add_canvas
             (snd (server_get_viewer
                (snd (ensure_server (fresh_process :: int world) ''localhost'' 9914 False True))
                0 (py_str_int 1))) 0))
          (unknown_format_warning ''gif''))" .
  from T2 j have "DisplayImpl_init (fresh_process :: int world) 1 False False ''localhost'' 9914
       False True ''png''
     = (case ensure_server (fresh_process :: int world) ''localhost'' 9914 False True of
             (a, w1) \<Rightarrow>
               (case server_get_viewer w1 a (py_str_int 1) of
                  (v, w2) \<Rightarrow>
                    (case add_canvas w2 v of
                       (k, w3) \<Rightarrow>
                         (Inr \<lparr>self_display = v, self_verbose = False, self_canvas = k\<rparr>,
                          (if False then (\<lambda>x. viewer_call x v Open) else (\<lambda>x. x))
                            (settings_set_format w3 v ''png'')))))"
    by blast
  also have "\<dots> = (Inr example_display,
        settings_set_format
          (snd (add_canvas
             (snd (server_get_viewer
                (snd (ensure_server (fresh_process :: int world) ''localhost'' 9914 False True))
                0 (py_str_int 1))) 0))
          0 ''png'')"
    by (subst e, simp only: prod.case, subst v, simp only: prod.case, subst k)
       (simp add: example_display_def)
  finally have b: "DisplayImpl_init (fresh_process :: int world) 1 False False ''localhost'' 9914
       False True ''png''
     = (Inr example_display,
        settings_set_format
          (snd (add_canvas
             (snd (server_get_viewer
                (snd (ensure_server (fresh_process :: int world) ''localhost'' 9914 False True))
                0 (py_str_int 1))) 0))
          0 ''png'')" .
  from g a j b show ?thesis
    by blast
qed

section \<open>Lines and region commands\<close>

text \<open>
  Claim C9.  For a non-empty list of n points \<^verbatim>\<open>_drawLines\<close> returns normally and
  appends to the canvas the n - 1 segments that join each point to the next, in order
  (none for a single point); for the empty list it raises IndexError and changes nothing.
\<close>

theorem drawLines_joins_consecutive_points:
  "(points \<noteq> [] \<longrightarrow>
      DisplayImpl_drawLines w self points ctype =
        (None, w\<lparr>canvas_objs := (canvas_objs w)
                   (self_canvas self := canvas_objs w (self_canvas self)
                      @ map (\<lambda>(p, q). Line [fst p, snd p, fst q, snd q] ctype)
                          (zip points (tl points)))\<rparr>)
      \<and> length (zip points (tl points)) = length points - 1)
   \<and> DisplayImpl_drawLines w self [] ctype = (Some (IndexError ''list index out of range''), w)"
  by (cases points) (simp_all add: DisplayImpl_drawLines_def drawLines_loop_segments)

text \<open>Three points give two segments; one point gives none.\<close>

theorem drawLines_joins_consecutive_points_witness:
  "[(0, 0), (4, 0), (4, 3)] \<noteq> ([] :: (int \<times> int) list)
   \<and> DisplayImpl_drawLines example_world example_display [(0, 0), (4, 0), (4, 3)] ''red''
     = (None, example_world\<lparr>canvas_objs := (canvas_objs example_world)
                (0 := canvas_objs example_world 0
                      @ [Line [0, 0, 4, 0] ''red'', Line [4, 0, 4, 3] ''red''])\<rparr>)
   \<and> DisplayImpl_drawLines example_world example_display [(7, 7)] ''red''
     = (None, example_world)"
  using drawLines_joins_consecutive_points
          [of "[(0, 0), (4, 0), (4, 3)]" example_world example_display "''red''"]
        drawLines_joins_consecutive_points
          [of "[(7, 7)]" example_world example_display "''red''"]
  by (simp add: example_display_def)

section \<open>Region commands\<close>

lemma floor_log2_between:
  assumes "2 ^ k \<le> y" and "y < 2 ^ Suc k"
  shows "\<lfloor>log 2 y\<rfloor> = int k"
proof -
  have p: "0 < y"
    using assms(1) by (rule less_le_trans[rotated]) simp
  have "2 powr (of_int (int k)) \<le> y \<and> y < 2 powr (of_int (int k + 1))"
    using assms by (simp add: powr_realpow powr_add)
  with p show ?thesis
    by (simp add: floor_log_eq_powr_iff)
qed

lemma round_double_between:
  assumes "2 ^ k \<le> \<bar>y\<bar>" and "\<bar>y\<bar> < 2 ^ Suc k"
  shows "round_double y
         = pow2 (int k - 52) * of_int (round_even (y / pow2 (int k - 52)))"
proof -
  have "(0::real) < 2 ^ k"
    by simp
  with assms(1) have "y \<noteq> 0"
    by linarith
  then show ?thesis
    by (simp add: round_double_def floor_log2_between[OF assms] Let_def)
qed

lemma double_minus_Finite:
  "\<bar>round_double (x - y)\<bar> \<le> max_double \<Longrightarrow>
   Finite x - Finite y = Finite (round_double (x - y))"
  by (simp add: minus_double_def Let_def)

lemma example_differences:
  "Finite 11 - 1 = Finite 10"
  "Finite 13 - 1 = Finite 12"
  "Finite 9 - 1 = Finite 8"
  by (simp_all add: minus_double_def one_double_def round_double_between[where k = 3]
        pow2_def round_even_def max_double_def Let_def)

lemma far_difference: "Finite 10000000000000000 - 1 = Finite 10000000000000000"
  by (simp add: minus_double_def one_double_def round_double_between[where k = 53]
        pow2_def round_even_def max_double_def Let_def)

lemma round_double_10: "round_double 10 = 10"
  by (simp add: round_double_between[where k = 3] pow2_def round_even_def Let_def)

lemma line_primitive:
  "(case floats_minus_1 X args of
      None \<Rightarrow> Inl e1
    | Some [x1, y1, x2, y2] \<Rightarrow> Inr (Line [x1, y1, x2, y2] ctype)
    | Some vs \<Rightarrow> Inl e2) = Inr p
   \<longleftrightarrow>
   (case those (map (pyfloat X) args) of
      Some [x1, y1, x2, y2] \<Rightarrow> Some (Line [x1 - 1, y1 - 1, x2 - 1, y2 - 1] ctype)
    | _ \<Rightarrow> None) = Some p"
  by (cases "those (map (pyfloat X) args)")
     (auto simp: floats_minus_1_those split: list.splits)

lemma text_primitive:
  "(case floats_minus_1 X (take 2 args) of
      None \<Rightarrow> Inl e1
    | Some [x, y] \<Rightarrow> Inr (Text x y symb ctype)
    | Some vs \<Rightarrow> Inl e2) = Inr p
   \<longleftrightarrow>
   (case args of
      a1 # a2 # rest \<Rightarrow>
        (case (pyfloat X a1, pyfloat X a2) of
           (Some x, Some y) \<Rightarrow> Some (Text (x - 1) (y - 1) symb ctype)
         | _ \<Rightarrow> None)
    | _ \<Rightarrow> None) = Some p"
  by (cases args; cases "tl args") (auto split: option.splits)

lemma dot_command_region:
  "dot_command X symb ctype ds9Cmd = Inr p \<longleftrightarrow> region_primitive X symb ctype ds9Cmd = Some p"
proof (cases "command_words ds9Cmd")
  case (Inl e)
  then show ?thesis
    by (simp add: dot_command_def region_primitive_def)
next
  case (Inr ws)
  show ?thesis
  proof (cases ws)
    case Nil
    with Inr show ?thesis
      by (simp add: dot_command_def region_primitive_def)
  next
    case (Cons name args)
    with Inr show ?thesis
      by (simp add: dot_command_def region_primitive_def line_primitive text_primitive)
  qed
qed

lemma dot_command_none:
  "region_primitive X symb ctype ds9Cmd = None \<Longrightarrow> \<exists>e. dot_command X symb ctype ds9Cmd = Inl e"
  using dot_command_region[of X symb ctype ds9Cmd]
  by (cases "dot_command X symb ctype ds9Cmd") auto

lemma other_command_none:
  "other_command ds9Cmd \<Longrightarrow> region_primitive X symb ctype ds9Cmd = None"
  by (auto simp: other_command_def region_primitive_def split: sum.splits list.splits)

lemma dot_loop_all:
  "those (map (region_primitive X s ctype) cmds) = Some ps \<Longrightarrow>
   dot_loop X w k s ctype cmds
   = (None, w\<lparr>canvas_objs := (canvas_objs w)(k := canvas_objs w k @ ps)\<rparr>)"
proof (induction cmds arbitrary: w ps)
  case Nil
  then show ?case by simp
next
  case (Cons c cs)
  from Cons.prems obtain p ps' where
    p: "region_primitive X s ctype c = Some p"
    and ps': "those (map (region_primitive X s ctype) cs) = Some ps'"
    and ps: "ps = p # ps'"
    by (auto split: option.splits)
  from p have d: "dot_command X s ctype c = Inr p"
    by (simp add: dot_command_region)
  have "dot_loop X w k s ctype (c # cs) = dot_loop X (canvas_add w k p) k s ctype cs"
    by (simp add: d)
  also have "\<dots> = (None, (canvas_add w k p)\<lparr>canvas_objs := (canvas_objs (canvas_add w k p))
                       (k := canvas_objs (canvas_add w k p) k @ ps')\<rparr>)"
    by (rule Cons.IH[OF ps'])
  finally show ?case
    by (simp only: canvas_add_then_append ps)
qed

lemma dot_loop_stop:
  "those (map (region_primitive X s ctype) pre) = Some ps \<Longrightarrow>
   dot_command X s ctype bad = Inl e \<Longrightarrow>
   dot_loop X w k s ctype (pre @ bad # post)
   = (Some e, w\<lparr>canvas_objs := (canvas_objs w)(k := canvas_objs w k @ ps)\<rparr>)"
proof (induction pre arbitrary: w ps)
  case Nil
  then show ?case by simp
next
  case (Cons c cs)
  from Cons.prems(1) obtain p ps' where
    p: "region_primitive X s ctype c = Some p"
    and ps': "those (map (region_primitive X s ctype) cs) = Some ps'"
    and ps: "ps = p # ps'"
    by (auto split: option.splits)
  from p have d: "dot_command X s ctype c = Inr p"
    by (simp add: dot_command_region)
  have "dot_loop X w k s ctype ((c # cs) @ bad # post)
        = dot_loop X (canvas_add w k p) k s ctype (cs @ bad # post)"
    by (simp add: d)
  also have "\<dots> = (Some e, (canvas_add w k p)\<lparr>canvas_objs := (canvas_objs (canvas_add w k p))
                       (k := canvas_objs (canvas_add w k p) k @ ps')\<rparr>)"
    by (rule Cons.IH[OF ps' Cons.prems(2)])
  finally show ?case
    by (simp only: canvas_add_then_append ps)
qed

lemma float_command_words:
  "command_words ''line 11 13 11 9 # color=red'' = Inr [''line'', ''11'', ''13'', ''11'', ''9'']"
  "command_words ''line 9 11 13 11 # color=red'' = Inr [''line'', ''9'', ''11'', ''13'', ''11'']"
  "command_words (''text 11 11 '' @ [CHR 0x22] @ ''A'' @ [CHR 0x22] @ '' # color=red'')
   = Inr [''text'', ''11'', ''11'', [CHR 0x22, CHR ''A'', CHR 0x22]]"
  "command_words ''ellipse 11 11 2i 1i 0 # color=red''
   = Inr [''ellipse'', ''11'', ''11'', ''2i'', ''1i'', ''0'']"
  "command_words ''line 1e+16 1e+16 1e+16 1e+16''
   = Inr [''line'', ''1e+16'', ''1e+16'', ''1e+16'', ''1e+16'']"
  by (simp_all add: command_words_def split_ws_def py_isspace_def)

lemma float_regions:
  "region_primitive float_ext s ''red'' ''line 11 13 11 9 # color=red''
   = Some (Line [Finite 10, Finite 12, Finite 10, Finite 8] ''red'')"
  "region_primitive float_ext s ''red'' ''line 9 11 13 11 # color=red''
   = Some (Line [Finite 8, Finite 10, Finite 12, Finite 10] ''red'')"
  "region_primitive float_ext s ''red''
     (''text 11 11 '' @ [CHR 0x22] @ ''A'' @ [CHR 0x22] @ '' # color=red'')
   = Some (Text (Finite 10) (Finite 10) s ''red'')"
  "region_primitive float_ext s ''red'' ''line 1e+16 1e+16 1e+16 1e+16''
   = Some (Line [Finite 10000000000000000, Finite 10000000000000000,
                 Finite 10000000000000000, Finite 10000000000000000] ''red'')"
  by (simp_all add: region_primitive_def float_command_words[simplified] float_ext_def
        example_differences far_difference)

lemma float_ellipse_other: "other_command ''ellipse 11 11 2i 1i 0 # color=red''"
  by (simp add: other_command_def float_command_words)

text \<open>
  Claim C4, as stated, fails.  The coordinates are \<^verbatim>\<open>float(p) - 1\<close> in floating
  point.  A plus sign of size 2 at (1e16, 1e16) has twice the region command
  \<^verbatim>\<open>line 1e+16 1e+16 1e+16 1e+16\<close>; each number is read as the double 1e16, and
  1e16 - 1, which is not a double, rounds back to 1e16: the lines are drawn at the
  coordinates of the commands, not at 1 less.
\<close>

theorem dot_region_commands_counterexample:
  "DisplayImpl_dot float_ext float_world example_display (Sym ''+'')
     (Finite 10000000000000000) (Finite 10000000000000000) (Finite 2) ''red'' ''helvetica'' None
   = (None, float_world\<lparr>canvas_objs := (canvas_objs float_world)
              (self_canvas example_display
                 := canvas_objs float_world (self_canvas example_display)
                    @ [Line [Finite 10000000000000000, Finite 10000000000000000,
                             Finite 10000000000000000, Finite 10000000000000000] ''red'',
                       Line [Finite 10000000000000000, Finite 10000000000000000,
                             Finite 10000000000000000, Finite 10000000000000000] ''red''])\<rparr>)
   \<and> ds9dot float_ext ''+'' (Finite 10000000000000000) (Finite 10000000000000000) (Finite 2)
        ''helvetica'' None
     = [''line 1e+16 1e+16 1e+16 1e+16'', ''line 1e+16 1e+16 1e+16 1e+16'']
   \<and> command_words ''line 1e+16 1e+16 1e+16 1e+16''
     = Inr [''line'', ''1e+16'', ''1e+16'', ''1e+16'', ''1e+16'']
   \<and> pyfloat float_ext ''1e+16'' = Some (Finite 10000000000000000)
   \<and> Finite 10000000000000000 \<noteq> Finite (10000000000000000 - 1)"
proof -
  have c: "ds9dot float_ext ''+'' (Finite 10000000000000000) (Finite 10000000000000000)
             (Finite 2) ''helvetica'' None
           = [''line 1e+16 1e+16 1e+16 1e+16'', ''line 1e+16 1e+16 1e+16 1e+16'']"
    by (simp add: float_ext_def)
  have d: "DisplayImpl_dot float_ext float_world example_display (Sym ''+'')
     (Finite 10000000000000000) (Finite 10000000000000000) (Finite 2) ''red'' ''helvetica'' None
   = (None, float_world\<lparr>canvas_objs := (canvas_objs float_world)
              (self_canvas example_display
                 := canvas_objs float_world (self_canvas example_display)
                    @ [Line [Finite 10000000000000000, Finite 10000000000000000,
                             Finite 10000000000000000, Finite 10000000000000000] ''red'',
                       Line [Finite 10000000000000000, Finite 10000000000000000,
                             Finite 10000000000000000, Finite 10000000000000000] ''red''])\<rparr>)"
  proof -
    have t: "those (map (region_primitive float_ext ''+'' ''red'')
               [''line 1e+16 1e+16 1e+16 1e+16'', ''line 1e+16 1e+16 1e+16 1e+16''])
             = Some [Line [Finite 10000000000000000, Finite 10000000000000000,
                             Finite 10000000000000000, Finite 10000000000000000] ''red'',
                     Line [Finite 10000000000000000, Finite 10000000000000000,
                             Finite 10000000000000000, Finite 10000000000000000] ''red'']"
      by (simp add: float_regions)
    have D: "DisplayImpl_dot float_ext float_world example_display (Sym ''+'')
               (Finite 10000000000000000) (Finite 10000000000000000) (Finite 2) ''red''
               ''helvetica'' None
             = dot_loop float_ext float_world (self_canvas example_display) ''+'' ''red''
                 (ds9dot float_ext ''+'' (Finite 10000000000000000) (Finite 10000000000000000)
                    (Finite 2) ''helvetica'' None)"
      by (simp add: DisplayImpl_dot_def)
    show ?thesis
      by (simp only: D c dot_loop_all[OF t])
  qed
  have p: "pyfloat float_ext ''1e+16'' = Some (Finite 10000000000000000)"
    by (simp add: float_ext_def)
  have n: "Finite 10000000000000000 \<noteq> Finite (10000000000000000 - 1)"
    by simp
  from c d p n float_command_words(5) show ?thesis
    by blast
qed

text \<open>
  Claim C4, amended.  For a symbol drawn through the region commands (a string other than
  \<^verbatim>\<open>o\<close>): when every command is a \<^verbatim>\<open>line\<close> with four numbers or a \<^verbatim>\<open>text\<close> with
  two numbers first, the call returns normally and appends exactly their primitives, in
  order, each coordinate being the command's number less 1 in the arithmetic of the
  numbers; when the first command that is not so has another name, the primitives of the
  commands before it are appended and the call raises RuntimeError with that command; when
  it is a malformed \<^verbatim>\<open>line\<close> or \<^verbatim>\<open>text\<close>, they are appended and the call raises.
  Nothing else in the store changes.  For Python's floats, a finite number less 1 is the
  exact difference rounded to the nearest double.
\<close>

theorem dot_region_commands_shifted:
  assumes "s \<noteq> ''o''"
      and "cmds = ds9dot X s c r sz ''helvetica'' None"
  shows "(\<forall>ps. those (map (region_primitive X s ctype) cmds) = Some ps \<longrightarrow>
            DisplayImpl_dot X w self (Sym s) c r sz ctype fontFamily textAngle
            = (None, w\<lparr>canvas_objs := (canvas_objs w)
                         (self_canvas self := canvas_objs w (self_canvas self) @ ps)\<rparr>))
    \<and> (\<forall>pre bad post ps.
          cmds = pre @ bad # post
          \<and> those (map (region_primitive X s ctype) pre) = Some ps
          \<and> other_command bad \<longrightarrow>
            DisplayImpl_dot X w self (Sym s) c r sz ctype fontFamily textAngle
            = (Some (RuntimeError bad),
               w\<lparr>canvas_objs := (canvas_objs w)
                     (self_canvas self := canvas_objs w (self_canvas self) @ ps)\<rparr>))
    \<and> (\<forall>pre bad post ps.
          cmds = pre @ bad # post
          \<and> those (map (region_primitive X s ctype) pre) = Some ps
          \<and> region_primitive X s ctype bad = None \<longrightarrow>
            (\<exists>e. DisplayImpl_dot X w self (Sym s) c r sz ctype fontFamily textAngle
                  = (Some e,
                     w\<lparr>canvas_objs := (canvas_objs w)
                           (self_canvas self := canvas_objs w (self_canvas self) @ ps)\<rparr>)))
    \<and> (\<forall>x. \<bar>round_double (x - 1)\<bar> \<le> max_double \<longrightarrow>
            Finite x - 1 = Finite (round_double (x - 1)))"
proof -
  have D: "DisplayImpl_dot X w self (Sym s) c r sz ctype fontFamily textAngle
           = dot_loop X w (self_canvas self) s ctype cmds"
    using assms by (simp add: DisplayImpl_dot_def)
  have A: "\<forall>ps. those (map (region_primitive X s ctype) cmds) = Some ps \<longrightarrow>
            DisplayImpl_dot X w self (Sym s) c r sz ctype fontFamily textAngle
            = (None, w\<lparr>canvas_objs := (canvas_objs w)
                         (self_canvas self := canvas_objs w (self_canvas self) @ ps)\<rparr>)"
    unfolding D by (blast intro: dot_loop_all)
  have B: "\<forall>pre bad post ps.
          cmds = pre @ bad # post
          \<and> those (map (region_primitive X s ctype) pre) = Some ps
          \<and> other_command bad \<longrightarrow>
            DisplayImpl_dot X w self (Sym s) c r sz ctype fontFamily textAngle
            = (Some (RuntimeError bad),
               w\<lparr>canvas_objs := (canvas_objs w)
                     (self_canvas self := canvas_objs w (self_canvas self) @ ps)\<rparr>)"
    unfolding D by (auto intro!: dot_loop_stop dot_command_other)
  have C: "\<forall>pre bad post ps.
          cmds = pre @ bad # post
          \<and> those (map (region_primitive X s ctype) pre) = Some ps
          \<and> region_primitive X s ctype bad = None \<longrightarrow>
            (\<exists>e. DisplayImpl_dot X w self (Sym s) c r sz ctype fontFamily textAngle
                  = (Some e,
                     w\<lparr>canvas_objs := (canvas_objs w)
                           (self_canvas self := canvas_objs w (self_canvas self) @ ps)\<rparr>))"
  proof (intro allI impI)
    fix pre bad post ps
    assume h: "cmds = pre @ bad # post
          \<and> those (map (region_primitive X s ctype) pre) = Some ps
          \<and> region_primitive X s ctype bad = None"
    then obtain e where "dot_command X s ctype bad = Inl e"
      using dot_command_none by blast
    with h have "dot_loop X w (self_canvas self) s ctype cmds
                 = (Some e, w\<lparr>canvas_objs := (canvas_objs w)
                           (self_canvas self := canvas_objs w (self_canvas self) @ ps)\<rparr>)"
      by (simp add: dot_loop_stop)
    then show "\<exists>e. DisplayImpl_dot X w self (Sym s) c r sz ctype fontFamily textAngle
                  = (Some e,
                     w\<lparr>canvas_objs := (canvas_objs w)
                           (self_canvas self := canvas_objs w (self_canvas self) @ ps)\<rparr>)"
      unfolding D by blast
  qed
  have F: "\<forall>x. \<bar>round_double (x - 1)\<bar> \<le> max_double \<longrightarrow>
            Finite x - 1 = Finite (round_double (x - 1))"
    by (simp add: minus_double_def one_double_def Let_def)
  from A B C F show ?thesis
    by blast
qed

text \<open>With Python's floats at (10, 10): the two lines of a plus sign and the text of a
  letter, drawn in zero-based coordinates; the ellipse command of a symbol given by its
  moments, which the loop refuses; and 11 - 1 = 10.\<close>

theorem dot_region_commands_shifted_witness:
  "''+'' \<noteq> ''o'' \<and> ''A'' \<noteq> ''o'' \<and> ''@:4,0,1'' \<noteq> ''o''
   \<and> DisplayImpl_dot float_ext float_world example_display (Sym ''+'')
        (Finite 10) (Finite 10) (Finite 2) ''red'' ''helvetica'' None
     = (None, float_world\<lparr>canvas_objs := (canvas_objs float_world)
                (self_canvas example_display
                   := canvas_objs float_world (self_canvas example_display)
                      @ [Line [Finite 10, Finite 12, Finite 10, Finite 8] ''red'',
                         Line [Finite 8, Finite 10, Finite 12, Finite 10] ''red''])\<rparr>)
   \<and> DisplayImpl_dot float_ext float_world example_display (Sym ''A'')
        (Finite 10) (Finite 10) (Finite 2) ''red'' ''helvetica'' None
     = (None, float_world\<lparr>canvas_objs := (canvas_objs float_world)
                (self_canvas example_display
                   := canvas_objs float_world (self_canvas example_display)
                      @ [Text (Finite 10) (Finite 10) ''A'' ''red''])\<rparr>)
   \<and> DisplayImpl_dot float_ext float_world example_display (Sym ''@:4,0,1'')
        (Finite 10) (Finite 10) (Finite 2) ''red'' ''helvetica'' None
     = (Some (RuntimeError ''ellipse 11 11 2i 1i 0 # color=red''),
        float_world\<lparr>canvas_objs := (canvas_objs float_world)
                (self_canvas example_display
                   := canvas_objs float_world (self_canvas example_display) @ [])\<rparr>)
   \<and> Finite 11 - 1 = Finite 10"
proof -
  have n: "''+'' \<noteq> ''o''" "''A'' \<noteq> ''o''" "''@:4,0,1'' \<noteq> ''o''"
    by simp_all
  have c1: "[''line 11 13 11 9 # color=red'', ''line 9 11 13 11 # color=red'']
            = ds9dot float_ext ''+'' (Finite 10) (Finite 10) (Finite 2) ''helvetica'' None"
    by (simp add: float_ext_def)
  have c2: "[''text 11 11 '' @ [CHR 0x22] @ ''A'' @ [CHR 0x22] @ '' # color=red'']
            = ds9dot float_ext ''A'' (Finite 10) (Finite 10) (Finite 2) ''helvetica'' None"
    by (simp add: float_ext_def)
  have c3: "[] @ ''ellipse 11 11 2i 1i 0 # color=red'' # []
            = ds9dot float_ext ''@:4,0,1'' (Finite 10) (Finite 10) (Finite 2) ''helvetica'' None"
    by (simp add: float_ext_def)
  have p1: "those (map (region_primitive float_ext ''+'' ''red'')
              [''line 11 13 11 9 # color=red'', ''line 9 11 13 11 # color=red''])
            = Some [Line [Finite 10, Finite 12, Finite 10, Finite 8] ''red'',
                    Line [Finite 8, Finite 10, Finite 12, Finite 10] ''red'']"
    by (simp add: float_regions)
  have p2: "those (map (region_primitive float_ext ''A'' ''red'')
              [''text 11 11 '' @ [CHR 0x22] @ ''A'' @ [CHR 0x22] @ '' # color=red''])
            = Some [Text (Finite 10) (Finite 10) ''A'' ''red'']"
    by (simp only: list.map those.simps float_regions option.case option.map)
  have p3: "those (map (region_primitive float_ext ''@:4,0,1'' ''red'') []) = Some []"
    by simp
  have r: "\<bar>round_double (11 - 1)\<bar> \<le> max_double"
    by (simp add: round_double_10 max_double_def)
  note T1 = dot_region_commands_shifted[OF n(1) c1, of "''red''" float_world example_display
              "''helvetica''" None]
  note T2 = dot_region_commands_shifted[OF n(2) c2, of "''red''" float_world example_display
              "''helvetica''" None]
  note T3 = dot_region_commands_shifted[OF n(3) c3, of "''red''" float_world example_display
              "''helvetica''" None]
  from T1 p1 have a: "DisplayImpl_dot float_ext float_world example_display (Sym ''+'')
        (Finite 10) (Finite 10) (Finite 2) ''red'' ''helvetica'' None
     = (None, float_world\<lparr>canvas_objs := (canvas_objs float_world)
                (self_canvas example_display
                   := canvas_objs float_world (self_canvas example_display)
                      @ [Line [Finite 10, Finite 12, Finite 10, Finite 8] ''red'',
                         Line [Finite 8, Finite 10, Finite 12, Finite 10] ''red''])\<rparr>)"
    by blast
  from T2 p2 have b: "DisplayImpl_dot float_ext float_world example_display (Sym ''A'')
        (Finite 10) (Finite 10) (Finite 2) ''red'' ''helvetica'' None
     = (None, float_world\<lparr>canvas_objs := (canvas_objs float_world)
                (self_canvas example_display
                   := canvas_objs float_world (self_canvas example_display)
                      @ [Text (Finite 10) (Finite 10) ''A'' ''red''])\<rparr>)"
    by blast
  from T3 c3 p3 float_ellipse_other
  have c: "DisplayImpl_dot float_ext float_world example_display (Sym ''@:4,0,1'')
        (Finite 10) (Finite 10) (Finite 2) ''red'' ''helvetica'' None
     = (Some (RuntimeError ''ellipse 11 11 2i 1i 0 # color=red''),
        float_world\<lparr>canvas_objs := (canvas_objs float_world)
                (self_canvas example_display
                   := canvas_objs float_world (self_canvas example_display) @ [])\<rparr>)"
    by blast
  from T1 r have "Finite 11 - 1 = Finite (round_double (11 - 1))"
    by blast
  then have d: "Finite 11 - 1 = Finite 10"
    by (simp add: round_double_10)
  from n a b c d show ?thesis
    by blast
qed

end
